theory Spec2Isabelle
  imports Complex_Main "HOL-Library.Sublist"
begin

section \<open>JavaScript strings\<close>

text \<open>
  The service and the configuration script work on JavaScript strings. A string is modelled
  as a list of code units, \<^typ>\<open>string\<close>; the model keeps the code units below 256, which
  covers every literal the code compares against. \<open>startsWith\<close>, \<open>includes\<close> (here \<open>includesStr\<close>),
  \<open>trim\<close>, \<open>split\<close> and \<open>join\<close> are the methods of \<open>String.prototype\<close> and
  \<open>Array.prototype\<close> that the source calls.
\<close>

fun startsWith :: "string \<Rightarrow> string \<Rightarrow> bool" where
  "startsWith s [] = True"
| "startsWith [] (c # cs) = False"
| "startsWith (x # xs) (c # cs) = (x = c \<and> startsWith xs cs)"

fun includesStr :: "string \<Rightarrow> string \<Rightarrow> bool" where
  "includesStr [] sub = (sub = [])"
| "includesStr (x # xs) sub = (startsWith (x # xs) sub \<or> includesStr xs sub)"

text \<open>White space of \<open>String.prototype.trim\<close> among the code units below 256:
  TAB, LF, VT, FF, CR, SPACE and NBSP.\<close>

definition is_space :: "char \<Rightarrow> bool" where
  "is_space c = (of_char c \<in> {9, 10, 11, 12, 13, 32, 160 :: nat})"

definition trim :: "string \<Rightarrow> string" where
  "trim s = rev (dropWhile is_space (rev (dropWhile is_space s)))"

text \<open>\<open>s.split(sep)\<close> for a separator of one code unit.\<close>

fun split_on :: "char \<Rightarrow> string \<Rightarrow> string list" where
  "split_on sep [] = [[]]"
| "split_on sep (c # cs) =
     (if c = sep then [] # split_on sep cs
      else (case split_on sep cs of
              [] \<Rightarrow> [[c]]
            | w # ws \<Rightarrow> (c # w) # ws))"

fun join :: "string \<Rightarrow> string list \<Rightarrow> string" where
  "join sep [] = []"
| "join sep [x] = x"
| "join sep (x # y # ys) = x @ sep @ join sep (y # ys)"

section \<open>JavaScript values\<close>

text \<open>
  What \<open>response.json()\<close> and \<open>JSON.parse\<close> return is not checked against the
  TypeScript interfaces at run time, so a response is any JSON value. \<open>JUndefined\<close> is the
  value of a missing property. \<open>JObj kvs\<close> is the object whose property \<open>name\<close> is
  \<open>map_of kvs name\<close>. A number is kept as a rational: the code only tests numbers for
  truthiness.
\<close>

datatype js_value =
    JUndefined
  | JNull
  | JBool bool
  | JNum rat
  | JStr string
  | JArr "js_value list"
  | JObj "(string \<times> js_value) list"

text \<open>The retry delay of line 330: the value found in the error body, or the fallback text
  (the word for "unknown").\<close>

datatype retry_delay = Unknown | Delay js_value

datatype js_error =
    TypeError
  | SyntaxError
  | Error string
  | ApiCallFailed nat string string
  | QuotaExceeded retry_delay

text \<open>
  \<open>ApiCallFailed status statusText errorData\<close> is the error of line 343, whose message is
  \<open>API call failed: ${status} ${statusText} - ${errorData}\<close>; \<open>QuotaExceeded retryDelay\<close> is
  the error of line 340, whose message asks the user to wait \<open>${retryDelay}\<close> and retry.
\<close>

fun truthy :: "js_value \<Rightarrow> bool" where
  "truthy JUndefined = False"
| "truthy JNull = False"
| "truthy (JBool b) = b"
| "truthy (JNum n) = (n \<noteq> 0)"
| "truthy (JStr s) = (s \<noteq> [])"
| "truthy (JArr xs) = True"
| "truthy (JObj kvs) = True"

text \<open>
  \<open>v.name\<close> for the property names the code reads (\<open>candidates\<close>, \<open>content\<close>,
  \<open>parts\<close>, \<open>inlineData\<close>, \<open>data\<close>, \<open>text\<close>, \<open>choices\<close>, \<open>message\<close>,
  \<open>error\<close>, \<open>details\<close>, \<open>@type\<close>, \<open>retryDelay\<close>): none of them is a property of a
  built-in prototype, so only an object can have one. Reading a property of \<open>undefined\<close> or
  \<open>null\<close> throws a TypeError.
\<close>

fun getProp :: "js_value \<Rightarrow> string \<Rightarrow> js_error + js_value" where
  "getProp JUndefined name = Inl TypeError"
| "getProp JNull name = Inl TypeError"
| "getProp (JObj kvs) name = Inr (case map_of kvs name of None \<Rightarrow> JUndefined | Some v \<Rightarrow> v)"
| "getProp v name = Inr JUndefined"

text \<open>\<open>v[0]\<close>: the first element of an array, the first code unit of a string, the
  property \<open>0\<close> of an object.\<close>

fun elem0 :: "js_value \<Rightarrow> js_error + js_value" where
  "elem0 JUndefined = Inl TypeError"
| "elem0 JNull = Inl TypeError"
| "elem0 (JArr xs) = Inr (case xs of [] \<Rightarrow> JUndefined | x # _ \<Rightarrow> x)"
| "elem0 (JStr s) = Inr (case s of [] \<Rightarrow> JUndefined | c # _ \<Rightarrow> JStr [c])"
| "elem0 (JObj kvs) = Inr (case map_of kvs ''0'' of None \<Rightarrow> JUndefined | Some v \<Rightarrow> v)"
| "elem0 v = Inr JUndefined"

text \<open>The values a \<open>for ... of\<close> loop visits: the elements of an array, the characters of a
  string; any other value is not iterable.\<close>

fun iterate :: "js_value \<Rightarrow> js_error + js_value list" where
  "iterate (JArr xs) = Inr xs"
| "iterate (JStr s) = Inr (map (\<lambda>c. JStr [c]) s)"
| "iterate v = Inl TypeError"

text \<open>Sequencing of computations that may throw, and \<open>a && f(a)\<close>: the right operand is
  evaluated only when the left one is truthy, and the left one is the value otherwise.\<close>

definition and_then :: "js_error + 'a \<Rightarrow> ('a \<Rightarrow> js_error + 'b) \<Rightarrow> js_error + 'b" where
  "and_then m f = (case m of Inl e \<Rightarrow> Inl e | Inr v \<Rightarrow> f v)"

definition guarded :: "js_error + js_value \<Rightarrow> (js_value \<Rightarrow> js_error + js_value) \<Rightarrow> js_error + js_value" where
  "guarded m f = and_then m (\<lambda>v. if truthy v then f v else Inr v)"


section \<open>Configuration of the service\<close>

text \<open>\<open>APIConfig\<close> and \<open>Partial<APIConfig>\<close>. In the partial configuration \<open>None\<close> is a
  field that is not supplied; \<open>apiToken\<close> is optional in \<open>APIConfig\<close>, so it can be supplied
  as \<open>undefined\<close>.\<close>

record APIConfig =
  baseUrl :: string
  apiKey :: string
  modelName :: string
  apiToken :: "string option"

record PartialAPIConfig =
  p_baseUrl :: "string option"
  p_apiKey :: "string option"
  p_modelName :: "string option"
  p_apiToken :: "string option option"

text \<open>The object spread \<open>{ ...base, ...config }\<close>.\<close>

definition spread :: "APIConfig \<Rightarrow> PartialAPIConfig \<Rightarrow> APIConfig" where
  "spread base config =
     \<lparr> baseUrl = (case p_baseUrl config of None \<Rightarrow> baseUrl base | Some v \<Rightarrow> v),
       apiKey = (case p_apiKey config of None \<Rightarrow> apiKey base | Some v \<Rightarrow> v),
       modelName = (case p_modelName config of None \<Rightarrow> modelName base | Some v \<Rightarrow> v),
       apiToken = (case p_apiToken config of None \<Rightarrow> apiToken base | Some v \<Rightarrow> v) \<rparr>"

text \<open>\<open>import.meta.env.NAME || fallback\<close>, and \<open>defaultConfig\<close> (lines 87 to 90 and 114 to
  119).\<close>

definition env_or :: "(string \<rightharpoonup> string) \<Rightarrow> string \<Rightarrow> string \<Rightarrow> string" where
  "env_or env name fallback = (case env name of None \<Rightarrow> fallback | Some v \<Rightarrow> if v = [] then fallback else v)"

definition defaultConfig :: "(string \<rightharpoonup> string) \<Rightarrow> APIConfig" where
  "defaultConfig env =
     \<lparr> baseUrl = env_or env ''VITE_API_BASE_URL'' ''https://generativelanguage.googleapis.com'',
       apiKey = env_or env ''VITE_GEMINI_API_KEY'' ''demo-key'',
       modelName = env_or env ''VITE_MODEL_NAME'' ''gemini-2.5-flash-image-preview'',
       apiToken = Some (env_or env ''VITE_API_TOKEN'' []) \<rparr>"

text \<open>
  The service object holds a reference to its configuration object, and \<open>getConfig\<close> hands
  an object to the caller, who may assign to its fields. The store is the list of the
  configuration objects allocated so far, and a reference is an index into it; \<open>config_ref\<close>
  is the field \<open>this.config\<close>.
\<close>

record service_state =
  store :: "APIConfig list"
  config_ref :: nat

definition alloc :: "APIConfig list \<Rightarrow> APIConfig \<Rightarrow> nat \<times> APIConfig list" where
  "alloc objs c = (length objs, objs @ [c])"

definition this_config :: "service_state \<Rightarrow> APIConfig" where
  "this_config st = store st ! config_ref st"

text \<open>\<open>new GeminiService(config)\<close>, in a store that holds \<open>objs\<close> already; an absent
  argument spreads nothing.\<close>

definition no_fields :: PartialAPIConfig where
  "no_fields = \<lparr> p_baseUrl = None, p_apiKey = None, p_modelName = None, p_apiToken = None \<rparr>"

definition constructor :: "(string \<rightharpoonup> string) \<Rightarrow> APIConfig list \<Rightarrow> PartialAPIConfig option \<Rightarrow> service_state" where
  "constructor env objs config =
     (let (r, objs') = alloc objs (spread (defaultConfig env) (case config of None \<Rightarrow> no_fields | Some c \<Rightarrow> c))
      in \<lparr> store = objs', config_ref = r \<rparr>)"

definition setConfig :: "PartialAPIConfig \<Rightarrow> service_state \<Rightarrow> service_state" where
  "setConfig config st =
     (let (r, objs') = alloc (store st) (spread (this_config st) config)
      in \<lparr> store = objs', config_ref = r \<rparr>)"

definition getConfig :: "service_state \<Rightarrow> nat \<times> service_state" where
  "getConfig st =
     (let (r, objs') = alloc (store st) (this_config st)
      in (r, st\<lparr> store := objs' \<rparr>))"

text \<open>An assignment by the caller to fields of the object at reference \<open>r\<close>.\<close>

definition assign :: "nat \<Rightarrow> (APIConfig \<Rightarrow> APIConfig) \<Rightarrow> service_state \<Rightarrow> service_state" where
  "assign r f st = (if r < length (store st) then st\<lparr> store := (store st)[r := f (store st ! r)] \<rparr> else st)"

text \<open>The configuration object is allocated: the invariant of the service.\<close>

definition valid_state :: "service_state \<Rightarrow> bool" where
  "valid_state st = (config_ref st < length (store st))"


section \<open>Requests, responses and effects\<close>

datatype part = TextPart string | InlineData string string

text \<open>\<open>InlineData mime_type data\<close> is the part \<open>{ inline_data: { mime_type, data } }\<close>.\<close>

record GenerationContent =
  role :: "string option"
  parts :: "part list"

record GenerationConfig =
  config_temperature :: "rat option"
  candidateCount :: "nat option"
  responseModalities :: "string list option"

record APIRequestPayload =
  contents :: "GenerationContent list"
  generationConfig :: "GenerationConfig option"

record GenerationRequest =
  prompt :: string
  referenceImages :: "string list option"
  temperature :: "rat option"
  seed :: "rat option"

record EditRequest =
  instruction :: string
  originalImage :: string
  edit_referenceImages :: "string list option"
  maskImage :: "string option"
  edit_temperature :: "rat option"
  edit_seed :: "rat option"

record SegmentationRequest =
  segment_image :: string
  query :: string

record http_request =
  url :: string
  http_method :: string
  headers :: "string \<rightharpoonup> string"
  body :: APIRequestPayload

record http_response =
  ok :: bool
  status :: nat
  statusText :: string
  body_text :: string

text \<open>\<open>fetch\<close> either rejects or resolves with a response. The environment of a call is the
  function \<open>fetch\<close> and the function \<open>JSON.parse\<close>, which returns \<open>None\<close> where it throws a
  SyntaxError; \<open>response.json()\<close> is \<open>JSON.parse\<close> of the body.\<close>

datatype fetch_result = Rejected js_error | Responded http_response

text \<open>
  What the service writes to the console on its error paths: \<open>ApiFailure\<close> is the
  \<open>console.error\<close> of line 320, \<open>QuotaNotice\<close> the \<open>console.log\<close> lines 332 to 338 with the
  suggested waiting time, \<open>ErrorCaught label e\<close> the \<open>console.error(label, e)\<close> of a catch
  block. The \<open>console.log\<close> lines that only report progress are left out.
\<close>

datatype console_entry =
    ApiFailure nat string string
  | QuotaNotice retry_delay
  | ErrorCaught string js_error

text \<open>What a call does: the requests it passed to \<open>fetch\<close>, what it wrote to the console,
  and how its promise settled (\<open>Inl\<close> rejected, \<open>Inr\<close> resolved).\<close>

record 'a run =
  sent :: "http_request list"
  console :: "console_entry list"
  outcome :: "js_error + 'a"


section \<open>callAPI\<close>

text \<open>\<open>this.config.apiToken && this.config.apiToken.trim()\<close> is truthy.\<close>

definition has_token :: "APIConfig \<Rightarrow> bool" where
  "has_token cfg = (case apiToken cfg of None \<Rightarrow> False | Some t \<Rightarrow> t \<noteq> [] \<and> trim t \<noteq> [])"

definition token_of :: "APIConfig \<Rightarrow> string" where
  "token_of cfg = (case apiToken cfg of None \<Rightarrow> [] | Some t \<Rightarrow> t)"

text \<open>The headers of lines 252 to 287. The three branches of lines 276 to 280 store the same
  value, \<open>authToken\<close>, under \<open>Authorization\<close>.\<close>

definition request_headers :: "APIConfig \<Rightarrow> (string \<rightharpoonup> string)" where
  "request_headers cfg =
     (let headers = [''Content-Type'' \<mapsto> ''application/json''] in
      if includesStr (baseUrl cfg) ''googleapis.com'' then
        (let headers = headers(''x-goog-api-key'' \<mapsto> apiKey cfg) in
         if has_token cfg \<and> includesStr (token_of cfg) ''SAPISID''
         then headers(''Cookie'' \<mapsto> token_of cfg)
         else headers)
      else
        (let authToken = (if has_token cfg then token_of cfg else apiKey cfg) in
         if authToken \<noteq> [] \<and> authToken \<noteq> ''demo-key''
         then headers(''Authorization'' \<mapsto> authToken)
         else headers))"

text \<open>The callback of \<open>find\<close> on line 329, \<open>d['@type']?.includes('RetryInfo')\<close>: a string is
  searched for the substring, an array for the element; any other value that is neither
  \<open>undefined\<close> nor \<open>null\<close> has no method \<open>includes\<close>.\<close>

definition is_retry_info :: "js_value \<Rightarrow> js_error + bool" where
  "is_retry_info d =
     and_then (getProp d ''@type'') (\<lambda>t.
       case t of
         JUndefined \<Rightarrow> Inr False
       | JNull \<Rightarrow> Inr False
       | JStr s \<Rightarrow> Inr (includesStr s ''RetryInfo'')
       | JArr ys \<Rightarrow> Inr (JStr ''RetryInfo'' \<in> set ys)
       | _ \<Rightarrow> Inl TypeError)"

fun find_retry_info :: "js_value list \<Rightarrow> js_error + js_value" where
  "find_retry_info [] = Inr JUndefined"
| "find_retry_info (d # ds) =
     (case is_retry_info d of
        Inl e \<Rightarrow> Inl e
      | Inr b \<Rightarrow> if b then Inr d else find_retry_info ds)"

text \<open>\<open>errorObj.error?.details?.find(...)\<close>: the chain stops with \<open>undefined\<close> at an
  \<open>undefined\<close> or \<open>null\<close> link; only an array has the method \<open>find\<close>.\<close>

definition retry_info :: "js_value \<Rightarrow> js_error + js_value" where
  "retry_info errorObj =
     and_then (getProp errorObj ''error'') (\<lambda>e.
       if e = JUndefined \<or> e = JNull then Inr JUndefined
       else and_then (getProp e ''details'') (\<lambda>ds.
         case ds of
           JUndefined \<Rightarrow> Inr JUndefined
         | JNull \<Rightarrow> Inr JUndefined
         | JArr xs \<Rightarrow> find_retry_info xs
         | _ \<Rightarrow> Inl TypeError))"

text \<open>\<open>retryInfo?.retryDelay || fallback\<close>.\<close>

definition retry_delay_of :: "js_value \<Rightarrow> js_error + retry_delay" where
  "retry_delay_of errorObj =
     and_then (retry_info errorObj) (\<lambda>retryInfo.
       if retryInfo = JUndefined \<or> retryInfo = JNull then Inr Unknown
       else and_then (getProp retryInfo ''retryDelay'') (\<lambda>v.
         Inr (if truthy v then Delay v else Unknown)))"

text \<open>The request of lines 249 to 316: \<open>fetch(url, { method: 'POST', headers, body })\<close>. The
  body is kept as the payload that \<open>JSON.stringify\<close> serialises.\<close>

definition api_request :: "APIConfig \<Rightarrow> string \<Rightarrow> APIRequestPayload \<Rightarrow> http_request" where
  "api_request cfg endpoint payload =
     \<lparr> url = baseUrl cfg @ endpoint, http_method = ''POST'',
       headers = request_headers cfg, body = payload \<rparr>"

definition callAPI :: "APIConfig \<Rightarrow> (js_value \<Rightarrow> js_value option) \<Rightarrow> (http_request \<Rightarrow> fetch_result)
    \<Rightarrow> string \<Rightarrow> APIRequestPayload \<Rightarrow> js_value run" where
  "callAPI cfg JSON_parse fetch endpoint payload =
     (let request = api_request cfg endpoint payload
      in case fetch request of
           Rejected e \<Rightarrow> \<lparr> sent = [request], console = [], outcome = Inl e \<rparr>
         | Responded response \<Rightarrow>
             if \<not> ok response then
               (let errorData = body_text response;
                    failure = ApiFailure (status response) (statusText response) errorData
                in if status response = 429 then
                     (case JSON_parse (JStr errorData) of
                        None \<Rightarrow> \<lparr> sent = [request], console = [failure], outcome = Inl SyntaxError \<rparr>
                      | Some errorObj \<Rightarrow>
                          (case retry_delay_of errorObj of
                             Inl e \<Rightarrow> \<lparr> sent = [request], console = [failure], outcome = Inl e \<rparr>
                           | Inr retryDelay \<Rightarrow>
                               \<lparr> sent = [request], console = [failure, QuotaNotice retryDelay],
                                 outcome = Inl (QuotaExceeded retryDelay) \<rparr>))
                   else \<lparr> sent = [request], console = [failure],
                          outcome = Inl (ApiCallFailed (status response) (statusText response) errorData) \<rparr>)
             else
               (case JSON_parse (JStr (body_text response)) of
                  None \<Rightarrow> \<lparr> sent = [request], console = [], outcome = Inl SyntaxError \<rparr>
                | Some result \<Rightarrow> \<lparr> sent = [request], console = [], outcome = Inr result \<rparr>))"

section \<open>generateImage, editImage and segmentImage\<close>

text \<open>The endpoint of lines 384 to 387, chosen the same way on lines 465 to 468 and 535 to
  538.\<close>

definition endpoint_of :: "APIConfig \<Rightarrow> string" where
  "endpoint_of cfg =
     (if includesStr (baseUrl cfg) ''openai.com''
      then ''/v1/chat/completions''
      else ''/v1beta/models/'' @ modelName cfg @ '':generateContent'')"

text \<open>The parts pushed by \<open>request.referenceImages.forEach\<close> (lines 361 to 370 and 436 to
  445).\<close>

definition reference_parts :: "string list option \<Rightarrow> part list" where
  "reference_parts images =
     (case images of
        None \<Rightarrow> []
      | Some imgs \<Rightarrow> map (\<lambda>image. InlineData ''image/png'' image) imgs)"

text \<open>The value of \<open>response.candidates && response.candidates[0] &&
  response.candidates[0].content && response.candidates[0].content.parts\<close>.\<close>

definition gemini_parts :: "js_value \<Rightarrow> js_error + js_value" where
  "gemini_parts response =
     guarded (guarded (guarded (getProp response ''candidates'') elem0)
       (\<lambda>c. getProp c ''content'')) (\<lambda>c. getProp c ''parts'')"

text \<open>The value of \<open>response.choices && response.choices[0]\<close>.\<close>

definition first_choice :: "js_value \<Rightarrow> js_error + js_value" where
  "first_choice response = guarded (getProp response ''choices'') elem0"

text \<open>The loop of lines 395 to 399 (and 476 to 480), \<open>images\<close> being the array built so
  far.\<close>

fun push_inline_data :: "js_value list \<Rightarrow> js_value list \<Rightarrow> js_error + js_value list" where
  "push_inline_data [] images = Inr images"
| "push_inline_data (p # ps) images =
     (case guarded (getProp p ''inlineData'') (\<lambda>i. getProp i ''data'') of
        Inl e \<Rightarrow> Inl e
      | Inr d \<Rightarrow> push_inline_data ps (if truthy d then images @ [d] else images))"

text \<open>Lines 390 to 411 of \<open>generateImage\<close>; lines 471 to 491 of \<open>editImage\<close> are the same
  statements.\<close>

definition extract_images :: "js_value \<Rightarrow> js_error + js_value list" where
  "extract_images response =
     and_then (gemini_parts response) (\<lambda>ps.
       if truthy ps then and_then (iterate ps) (\<lambda>xs. push_inline_data xs [])
       else and_then (first_choice response) (\<lambda>choice.
         if truthy choice then
           and_then (guarded (getProp choice ''message'') (\<lambda>m. getProp m ''content'')) (\<lambda>content.
             Inr (if truthy content then [content] else []))
         else Inl (Error ''Invalid response format from API'')))"

text \<open>A \<open>try\<close> block that continues with \<open>f\<close> after the call, and the \<open>catch\<close> block of
  the three operations: \<open>console.error(label, error)\<close>, then \<open>throw new Error(message)\<close>.\<close>

definition continue_with :: "'a run \<Rightarrow> ('a \<Rightarrow> js_error + 'b) \<Rightarrow> 'b run" where
  "continue_with r f = \<lparr> sent = sent r, console = console r, outcome = and_then (outcome r) f \<rparr>"

definition catch_rethrow :: "string \<Rightarrow> string \<Rightarrow> 'a run \<Rightarrow> 'a run" where
  "catch_rethrow label message r =
     (case outcome r of
        Inl e \<Rightarrow> \<lparr> sent = sent r, console = console r @ [ErrorCaught label e],
                  outcome = Inl (Error message) \<rparr>
      | Inr v \<Rightarrow> r)"

definition generateImage_payload :: "GenerationRequest \<Rightarrow> APIRequestPayload" where
  "generateImage_payload request =
     \<lparr> contents = [\<lparr> role = Some ''user'',
                       parts = [TextPart (prompt request)] @ reference_parts (referenceImages request) \<rparr>],
       generationConfig = Some \<lparr> config_temperature = temperature request,
                                 candidateCount = Some 1,
                                 responseModalities = Some [''TEXT'', ''IMAGE''] \<rparr> \<rparr>"

definition generateImage :: "APIConfig \<Rightarrow> (js_value \<Rightarrow> js_value option) \<Rightarrow> (http_request \<Rightarrow> fetch_result)
    \<Rightarrow> GenerationRequest \<Rightarrow> js_value list run" where
  "generateImage cfg JSON_parse fetch request =
     catch_rethrow ''Error generating image:'' ''Failed to generate image. Please try again.''
       (continue_with (callAPI cfg JSON_parse fetch (endpoint_of cfg) (generateImage_payload request))
          extract_images)"

definition buildEditPrompt :: "EditRequest \<Rightarrow> string" where
  "buildEditPrompt request =
     (let maskInstruction =
        (case maskImage request of
           None \<Rightarrow> []
         | Some m \<Rightarrow>
             if m = [] then []
             else ''\<newline>\<newline>IMPORTANT: Apply changes ONLY where the mask image shows white pixels (value 255). Leave all other areas completely unchanged. Respect the mask boundaries precisely and maintain seamless blending at the edges.'')
      in ''Edit this image according to the following instruction: '' @ instruction request
         @ ''\<newline>\<newline>Maintain the original image's lighting, perspective, and overall composition. Make the changes look natural and seamlessly integrated.''
         @ maskInstruction
         @ ''\<newline>\<newline>Preserve image quality and ensure the edit looks professional and realistic.'')"

definition mask_parts :: "string option \<Rightarrow> part list" where
  "mask_parts maskImg =
     (case maskImg of
        None \<Rightarrow> []
      | Some m \<Rightarrow> if m = [] then [] else [InlineData ''image/png'' m])"

definition editImage_payload :: "EditRequest \<Rightarrow> APIRequestPayload" where
  "editImage_payload request =
     \<lparr> contents = [\<lparr> role = Some ''user'',
                       parts = [TextPart (buildEditPrompt request),
                                InlineData ''image/png'' (originalImage request)]
                               @ reference_parts (edit_referenceImages request)
                               @ mask_parts (maskImage request) \<rparr>],
       generationConfig = Some \<lparr> config_temperature = edit_temperature request,
                                 candidateCount = Some 1,
                                 responseModalities = Some [''TEXT'', ''IMAGE''] \<rparr> \<rparr>"

definition editImage :: "APIConfig \<Rightarrow> (js_value \<Rightarrow> js_value option) \<Rightarrow> (http_request \<Rightarrow> fetch_result)
    \<Rightarrow> EditRequest \<Rightarrow> js_value list run" where
  "editImage cfg JSON_parse fetch request =
     catch_rethrow ''Error editing image:'' ''Failed to edit image. Please try again.''
       (continue_with (callAPI cfg JSON_parse fetch (endpoint_of cfg) (editImage_payload request))
          extract_images)"


definition segmentImage_prompt :: "string \<Rightarrow> string" where
  \<open>segmentImage_prompt q =
     ''Analyze this image and create a segmentation mask for: '' @ q
     @ ''\<newline>\<newline>Return a JSON object with this exact structure:\<newline>{\<newline>  "masks": [\<newline>    {\<newline>      "label": "description of the segmented object",\<newline>      "box_2d": [x, y, width, height],\<newline>      "mask": "base64-encoded binary mask image"\<newline>    }\<newline>  ]\<newline>}\<newline>\<newline>Only segment the specific object or region requested. The mask should be a binary PNG where white pixels (255) indicate the selected region and black pixels (0) indicate the background.''\<close>

definition segmentImage_payload :: "SegmentationRequest \<Rightarrow> APIRequestPayload" where
  "segmentImage_payload request =
     \<lparr> contents = [\<lparr> role = Some ''user'',
                       parts = [TextPart (segmentImage_prompt (query request)),
                                InlineData ''image/png'' (segment_image request)] \<rparr>],
       generationConfig = Some \<lparr> config_temperature = None,
                                 candidateCount = None,
                                 responseModalities = Some [''TEXT'', ''IMAGE''] \<rparr> \<rparr>"

text \<open>Lines 545 to 553: \<open>responseText\<close>, or the error thrown when the response has neither
  shape.\<close>

definition response_text :: "js_value \<Rightarrow> js_error + js_value" where
  "response_text response =
     and_then (guarded (gemini_parts response) elem0) (\<lambda>p0.
       if truthy p0 then getProp p0 ''text''
       else and_then (guarded (first_choice response) (\<lambda>c. getProp c ''message'')) (\<lambda>m.
         if truthy m then getProp m ''content''
         else Inl (Error ''Invalid response format from API'')))"

text \<open>Lines 542 to 559.\<close>

definition parse_segmentation :: "(js_value \<Rightarrow> js_value option) \<Rightarrow> js_value \<Rightarrow> js_error + js_value" where
  "parse_segmentation JSON_parse response =
     and_then (response_text response) (\<lambda>responseText.
       if \<not> truthy responseText then Inl (Error ''No text content in response'')
       else (case JSON_parse responseText of
               None \<Rightarrow> Inl SyntaxError
             | Some v \<Rightarrow> Inr v))"

definition segmentImage :: "APIConfig \<Rightarrow> (js_value \<Rightarrow> js_value option) \<Rightarrow> (http_request \<Rightarrow> fetch_result)
    \<Rightarrow> SegmentationRequest \<Rightarrow> js_value run" where
  "segmentImage cfg JSON_parse fetch request =
     catch_rethrow ''Error segmenting image:'' ''Failed to segment image. Please try again.''
       (continue_with (callAPI cfg JSON_parse fetch (endpoint_of cfg) (segmentImage_payload request))
          (parse_segmentation JSON_parse))"

text \<open>The interface \<open>SegmentationResponse\<close> (lines 142 to 148) as a predicate on values: an
  object whose \<open>masks\<close> is an array of objects with a string \<open>label\<close>, a \<open>box_2d\<close> of four
  numbers and a string \<open>mask\<close>.\<close>

definition field :: "js_value \<Rightarrow> string \<Rightarrow> js_value" where
  "field v name = (case getProp v name of Inl e \<Rightarrow> JUndefined | Inr x \<Rightarrow> x)"

fun is_string :: "js_value \<Rightarrow> bool" where
  "is_string (JStr s) = True"
| "is_string v = False"

fun is_number :: "js_value \<Rightarrow> bool" where
  "is_number (JNum n) = True"
| "is_number v = False"

fun is_object :: "js_value \<Rightarrow> bool" where
  "is_object (JObj kvs) = True"
| "is_object v = False"

fun is_box_2d :: "js_value \<Rightarrow> bool" where
  "is_box_2d (JArr xs) = (length xs = 4 \<and> list_all is_number xs)"
| "is_box_2d v = False"

definition is_mask_entry :: "js_value \<Rightarrow> bool" where
  "is_mask_entry v =
     (is_object v \<and> is_string (field v ''label'') \<and> is_box_2d (field v ''box_2d'')
      \<and> is_string (field v ''mask''))"

definition is_SegmentationResponse :: "js_value \<Rightarrow> bool" where
  "is_SegmentationResponse v =
     (is_object v \<and> (case field v ''masks'' of JArr ms \<Rightarrow> list_all is_mask_entry ms | _ \<Rightarrow> False))"

section \<open>The configuration check\<close>

text \<open>
  The script that validates \<open>.env\<close>. Its input is the content of the file, \<open>None\<close> when
  the file does not exist; its result is the exit code of the process with the messages that
  report a finding. The lines that only print the detected provider, hints and rulers are left
  out. \<open>envVars\<close> is a map from names to values; the script reads it at four names only.
\<close>

datatype message =
    EnvFileMissing
  | NotConfigured string
  | RequiredMissing string
  | UsingDefault string
  | Configured string
  | NoAuthentication
  | TokenTakesPriority
  | DemoKeyInUse
  | ValidationPassed
  | ValidationFailed

record script_run =
  printed :: "message list"
  exit_code :: nat

record var_config =
  var_key :: string
  var_required :: bool

definition requiredVars :: "var_config list" where
  "requiredVars =
     [\<lparr> var_key = ''VITE_GEMINI_API_KEY'', var_required = False \<rparr>,
      \<lparr> var_key = ''VITE_API_TOKEN'', var_required = False \<rparr>,
      \<lparr> var_key = ''VITE_API_BASE_URL'', var_required = False \<rparr>,
      \<lparr> var_key = ''VITE_MODEL_NAME'', var_required = False \<rparr>]"

text \<open>The callback of lines 41 to 49, and the loop over the lines of the file.\<close>

definition parse_line :: "(string \<rightharpoonup> string) \<Rightarrow> string \<Rightarrow> (string \<rightharpoonup> string)" where
  "parse_line envVars line =
     (let trimmed = trim line in
      if trimmed \<noteq> [] \<and> \<not> startsWith trimmed ''#'' then
        (case split_on (CHR ''='') trimmed of
           [] \<Rightarrow> envVars
         | k # valueParts \<Rightarrow>
             if k \<noteq> [] \<and> length valueParts > 0
             then envVars(trim k \<mapsto> trim (join ''='' valueParts))
             else envVars)
      else envVars)"

definition parse_env :: "string \<Rightarrow> (string \<rightharpoonup> string)" where
  "parse_env envContent = foldl parse_line Map.empty (split_on (CHR ''\<newline>'') envContent)"

text \<open>Lines 83 and 84.\<close>

definition hasApiKey :: "(string \<rightharpoonup> string) \<Rightarrow> bool" where
  "hasApiKey envVars =
     (case envVars ''VITE_GEMINI_API_KEY'' of
        None \<Rightarrow> False
      | Some v \<Rightarrow> v \<noteq> [] \<and> v \<noteq> ''your_api_key_here'' \<and> \<not> includesStr v ''demo'')"

definition hasApiToken :: "(string \<rightharpoonup> string) \<Rightarrow> bool" where
  "hasApiToken envVars =
     (case envVars ''VITE_API_TOKEN'' of
        None \<Rightarrow> False
      | Some v \<Rightarrow> v \<noteq> [] \<and> trim v \<noteq> [])"

text \<open>The callback of lines 86 to 113: the state is \<open>isValid\<close> and the messages so far.\<close>

definition check_var :: "(string \<rightharpoonup> string) \<Rightarrow> bool \<times> message list \<Rightarrow> var_config \<Rightarrow> bool \<times> message list" where
  "check_var envVars state varConfig =
     (let (isValid, out) = state;
          k = var_key varConfig;
          unset = (case envVars k of
                     None \<Rightarrow> True
                   | Some v \<Rightarrow> v = [] \<or> (k = ''VITE_GEMINI_API_KEY''
                                \<and> (v = ''your_api_key_here'' \<or> includesStr v ''demo'')))
      in if unset then
           (if k = ''VITE_GEMINI_API_KEY'' \<and> \<not> hasApiToken envVars then (False, out @ [NotConfigured k])
            else if k = ''VITE_API_TOKEN'' \<and> \<not> hasApiKey envVars then (False, out @ [NotConfigured k])
            else if var_required varConfig then (False, out @ [RequiredMissing k])
            else (isValid, out @ [UsingDefault k]))
         else (isValid, out @ [Configured k]))"

text \<open>Lines 116 to 121, and lines 161 to 164.\<close>

definition check_auth :: "(string \<rightharpoonup> string) \<Rightarrow> bool \<times> message list \<Rightarrow> bool \<times> message list" where
  "check_auth envVars state =
     (let (isValid, out) = state in
      if \<not> hasApiKey envVars \<and> \<not> hasApiToken envVars then (False, out @ [NoAuthentication])
      else if hasApiKey envVars \<and> hasApiToken envVars then (isValid, out @ [TokenTakesPriority])
      else (isValid, out))"

definition demo_key :: "(string \<rightharpoonup> string) \<Rightarrow> bool" where
  "demo_key envVars =
     (case envVars ''VITE_GEMINI_API_KEY'' of
        None \<Rightarrow> False
      | Some v \<Rightarrow> v \<noteq> [] \<and> includesStr v ''demo'')"

definition check_demo :: "(string \<rightharpoonup> string) \<Rightarrow> bool \<times> message list \<Rightarrow> bool \<times> message list" where
  "check_demo envVars state =
     (let (isValid, out) = state in
      if demo_key envVars then (False, out @ [DemoKeyInUse]) else (isValid, out))"

definition check_config :: "string option \<Rightarrow> script_run" where
  "check_config env_file =
     (case env_file of
        None \<Rightarrow> \<lparr> printed = [EnvFileMissing], exit_code = 1 \<rparr>
      | Some envContent \<Rightarrow>
          (let envVars = parse_env envContent;
               (isValid, out) =
                  check_demo envVars (check_auth envVars (foldl (check_var envVars) (True, []) requiredVars))
           in if isValid then \<lparr> printed = out @ [ValidationPassed], exit_code = 0 \<rparr>
              else \<lparr> printed = out @ [ValidationFailed], exit_code = 1 \<rparr>))"

section \<open>Paths into a response\<close>

text \<open>
  For stating what the operations return: the value at a path of property names, which is
  \<open>undefined\<close> as soon as a link is missing. \<open>parts_of\<close> is
  \<open>candidates[0].content.parts\<close>, \<open>choice_of\<close> is \<open>choices[0]\<close>, \<open>inline_data_of\<close> is
  \<open>inlineData.data\<close> of a part.
\<close>

fun nullish :: "js_value \<Rightarrow> bool" where
  "nullish JUndefined = True"
| "nullish JNull = True"
| "nullish v = False"

definition first_of :: "js_value \<Rightarrow> js_value" where
  "first_of v = (case elem0 v of Inl e \<Rightarrow> JUndefined | Inr x \<Rightarrow> x)"

definition parts_of :: "js_value \<Rightarrow> js_value" where
  "parts_of response = field (field (first_of (field response ''candidates'')) ''content'') ''parts''"

definition choice_of :: "js_value \<Rightarrow> js_value" where
  "choice_of response = first_of (field response ''choices'')"

definition inline_data_of :: "js_value \<Rightarrow> js_value" where
  "inline_data_of p = field (field p ''inlineData'') ''data''"

definition message_content_of :: "js_value \<Rightarrow> js_value" where
  "message_content_of response = field (field (choice_of response) ''message'') ''content''"

definition first_part_of :: "js_value \<Rightarrow> js_value" where
  "first_part_of response = first_of (parts_of response)"

definition message_of :: "js_value \<Rightarrow> js_value" where
  "message_of response = field (choice_of response) ''message''"

definition text_of :: "js_value \<Rightarrow> js_value" where
  "text_of response =
     (if truthy (first_part_of response) then field (first_part_of response) ''text''
      else field (message_of response) ''content'')"

text \<open>\<open>details_of\<close> is \<open>error.details\<close> of an error body.\<close>

definition details_of :: "js_value \<Rightarrow> js_value" where
  "details_of errorObj = field (field errorObj ''error'') ''details''"

fun is_array :: "js_value \<Rightarrow> bool" where
  "is_array (JArr xs) = True"
| "is_array v = False"

section \<open>Sample inputs\<close>

text \<open>Configurations, requests, provider answers and the values \<open>JSON.parse\<close> gives for
  their bodies, used to run the operations on concrete inputs.\<close>

definition gemini_config :: APIConfig where
  "gemini_config =
     \<lparr> baseUrl = ''https://generativelanguage.googleapis.com'', apiKey = ''AIzaSyEXAMPLE'',
       modelName = ''gemini-2.5-flash-image-preview'', apiToken = Some [] \<rparr>"

definition openai_config :: APIConfig where
  "openai_config =
     \<lparr> baseUrl = ''https://api.openai.com'', apiKey = ''sk-key'',
       modelName = ''gpt-image-1'', apiToken = Some ''sk-token'' \<rparr>"

definition proxy_config :: APIConfig where
  "proxy_config =
     \<lparr> baseUrl = ''https://api.cometapi.com'', apiKey = ''sk-key'',
       modelName = ''gemini-2.5-flash-image-preview'', apiToken = Some '' '' \<rparr>"

definition sample_service :: service_state where
  "sample_service = constructor Map.empty [] None"

definition key_only :: PartialAPIConfig where
  "key_only = no_fields \<lparr> p_apiKey := Some ''sk-new'' \<rparr>"

definition sample_generation :: GenerationRequest where
  "sample_generation =
     \<lparr> prompt = ''a banana on a table'', referenceImages = Some [''cmVmMQ=='', ''cmVmMg=='', ''cmVmMw==''],
       temperature = Some (7 / 10), seed = None \<rparr>"

definition sample_edit :: EditRequest where
  "sample_edit =
     \<lparr> instruction = ''make the banana blue'', originalImage = ''b3JpZw=='',
       edit_referenceImages = Some [''cmVmMQ=='', ''cmVmMg=='', ''cmVmMw==''],
       maskImage = Some ''bWFzaw=='', edit_temperature = Some (7 / 10), edit_seed = None \<rparr>"

definition sample_segmentation :: SegmentationRequest where
  "sample_segmentation = \<lparr> segment_image = ''b3JpZw=='', query = ''the banana'' \<rparr>"

definition server :: "http_response \<Rightarrow> http_request \<Rightarrow> fetch_result" where
  "server response request = Responded response"

definition offline :: "http_request \<Rightarrow> fetch_result" where
  "offline request = Rejected TypeError"

definition ok_response :: "string \<Rightarrow> http_response" where
  "ok_response b = \<lparr> ok = True, status = 200, statusText = ''OK'', body_text = b \<rparr>"

definition image_body :: string where
  \<open>image_body = ''{"candidates":[{"content":{"parts":[{"text":"Here it is"},{"inlineData":{"mimeType":"image/png","data":"aGVsbG8="}}]}}]}''\<close>

definition image_value :: js_value where
  "image_value =
     JObj [(''candidates'', JArr [JObj [(''content'', JObj [(''parts'', JArr
       [JObj [(''text'', JStr ''Here it is'')],
        JObj [(''inlineData'', JObj [(''mimeType'', JStr ''image/png''), (''data'', JStr ''aGVsbG8='')])]])])]])]"

definition text_only_body :: string where
  \<open>text_only_body = ''{"candidates":[{"content":{"parts":[{"text":"I cannot draw that"}]}}]}''\<close>

definition text_only_value :: js_value where
  "text_only_value =
     JObj [(''candidates'', JArr [JObj [(''content'', JObj [(''parts'', JArr
       [JObj [(''text'', JStr ''I cannot draw that'')]])])]])]"

definition chat_body :: string where
  \<open>chat_body = ''{"choices":[{"message":{"content":"aGVsbG8="}}]}''\<close>

definition chat_value :: js_value where
  "chat_value = JObj [(''choices'', JArr [JObj [(''message'', JObj [(''content'', JStr ''aGVsbG8='')])]])]"

definition empty_chat_body :: string where
  \<open>empty_chat_body = ''{"choices":[{"message":{"content":""}}]}''\<close>

definition empty_chat_value :: js_value where
  "empty_chat_value = JObj [(''choices'', JArr [JObj [(''message'', JObj [(''content'', JStr [])])]])]"

definition other_body :: string where
  \<open>other_body = ''{"id":"r1"}''\<close>

definition other_value :: js_value where
  "other_value = JObj [(''id'', JStr ''r1'')]"

definition empty_object_body :: string where
  \<open>empty_object_body = ''{"candidates":[{"content":{"parts":[{"text":"{}"}]}}]}''\<close>

definition empty_object_value :: js_value where
  "empty_object_value =
     JObj [(''candidates'', JArr [JObj [(''content'', JObj [(''parts'', JArr
       [JObj [(''text'', JStr ''{}'')]])])]])]"

definition masks_text :: string where
  \<open>masks_text = ''{"masks":[{"label":"banana","box_2d":[10,20,30,40],"mask":"bWFzaw=="}]}''\<close>

definition masks_value :: js_value where
  "masks_value =
     JObj [(''masks'', JArr [JObj [(''label'', JStr ''banana''),
       (''box_2d'', JArr [JNum 10, JNum 20, JNum 30, JNum 40]), (''mask'', JStr ''bWFzaw=='')]])]"

text \<open>The text \<open>masks_text\<close> as a JSON string literal has a backslash before each double
  quote.\<close>

definition quoted :: "string \<Rightarrow> string" where
  \<open>quoted s = concat (map (\<lambda>c. if c = CHR ''"'' then [CHR 0x5C, c] else [c]) s)\<close>

definition masks_body :: string where
  \<open>masks_body = ''{"choices":[{"message":{"content":"'' @ quoted masks_text @ ''"}}]}''\<close>

definition masks_response_value :: js_value where
  "masks_response_value = JObj [(''choices'', JArr [JObj [(''message'', JObj [(''content'', JStr masks_text)])]])]"

definition quota_body :: string where
  \<open>quota_body = ''{"error":{"code":429,"status":"RESOURCE_EXHAUSTED","details":[{"@type":"type.googleapis.com/google.rpc.RetryInfo","retryDelay":"30s"}]}}''\<close>

definition quota_value :: js_value where
  "quota_value =
     JObj [(''error'', JObj [(''code'', JNum 429), (''status'', JStr ''RESOURCE_EXHAUSTED''),
       (''details'', JArr [JObj [(''@type'', JStr ''type.googleapis.com/google.rpc.RetryInfo''),
                                 (''retryDelay'', JStr ''30s'')]])])]"

definition quota_response :: http_response where
  "quota_response = \<lparr> ok = False, status = 429, statusText = ''Too Many Requests'', body_text = quota_body \<rparr>"

definition unavailable_response :: http_response where
  "unavailable_response = \<lparr> ok = False, status = 503, statusText = ''Service Unavailable'', body_text = ''upstream down'' \<rparr>"

text \<open>Gemini answers whose parts hold \<open>null\<close>, or are a string or an object, and error bodies
  of status 429 without a \<open>RetryInfo\<close> entry, with \<open>details\<close> that is no array, and
  \<open>null\<close>.\<close>

definition null_part_body :: string where
  \<open>null_part_body = ''{"candidates":[{"content":{"parts":[null]}}]}''\<close>

definition null_part_value :: js_value where
  "null_part_value =
     JObj [(''candidates'', JArr [JObj [(''content'', JObj [(''parts'', JArr [JNull])])]])]"

definition image_null_body :: string where
  \<open>image_null_body = ''{"candidates":[{"content":{"parts":[{"inlineData":{"data":"aGVsbG8="}},null]}}]}''\<close>

definition image_null_value :: js_value where
  "image_null_value =
     JObj [(''candidates'', JArr [JObj [(''content'', JObj [(''parts'', JArr
       [JObj [(''inlineData'', JObj [(''data'', JStr ''aGVsbG8='')])], JNull])])]])]"

definition string_parts_body :: string where
  \<open>string_parts_body = ''{"candidates":[{"content":{"parts":"ab"}}],"choices":[{"message":{"content":"aGVsbG8="}}]}''\<close>

definition string_parts_value :: js_value where
  "string_parts_value =
     JObj [(''candidates'', JArr [JObj [(''content'', JObj [(''parts'', JStr ''ab'')])]]),
           (''choices'', JArr [JObj [(''message'', JObj [(''content'', JStr ''aGVsbG8='')])]])]"

definition object_parts_body :: string where
  \<open>object_parts_body = ''{"candidates":[{"content":{"parts":{}}}],"choices":[{"message":{"content":"aGVsbG8="}}]}''\<close>

definition object_parts_value :: js_value where
  "object_parts_value =
     JObj [(''candidates'', JArr [JObj [(''content'', JObj [(''parts'', JObj [])])]]),
           (''choices'', JArr [JObj [(''message'', JObj [(''content'', JStr ''aGVsbG8='')])]])]"

definition no_retry_body :: string where
  \<open>no_retry_body = ''{"error":{"code":429,"message":"Quota exceeded"}}''\<close>

definition no_retry_value :: js_value where
  "no_retry_value = JObj [(''error'', JObj [(''code'', JNum 429), (''message'', JStr ''Quota exceeded'')])]"

definition bad_details_body :: string where
  \<open>bad_details_body = ''{"error":{"details":"RetryInfo"}}''\<close>

definition bad_details_value :: js_value where
  "bad_details_value = JObj [(''error'', JObj [(''details'', JStr ''RetryInfo'')])]"

definition quota_answer :: "string \<Rightarrow> http_response" where
  "quota_answer b = \<lparr> ok = False, status = 429, statusText = ''Too Many Requests'', body_text = b \<rparr>"

text \<open>\<open>JSON.parse\<close> on the sample texts; any other argument is taken as not parsing.\<close>

definition sample_texts :: "(string \<times> js_value) list" where
  "sample_texts =
     [(image_body, image_value), (text_only_body, text_only_value), (chat_body, chat_value),
      (empty_chat_body, empty_chat_value), (other_body, other_value),
      (empty_object_body, empty_object_value), (''{}'', JObj []),
      (masks_body, masks_response_value), (masks_text, masks_value), (quota_body, quota_value),
      (null_part_body, null_part_value), (image_null_body, image_null_value),
      (string_parts_body, string_parts_value), (object_parts_body, object_parts_value),
      (no_retry_body, no_retry_value), (bad_details_body, bad_details_value), (''null'', JNull)]"

fun sample_parse :: "js_value \<Rightarrow> js_value option" where
  "sample_parse (JStr s) = map_of sample_texts s"
| "sample_parse v = None"

text \<open>Contents of \<open>.env\<close>: a placeholder key with a token, a key and a token, and the
  sample key \<open>demo-key\<close> with a token.\<close>

definition token_only_env :: string where
  "token_only_env = ''# local settings\<newline>VITE_GEMINI_API_KEY=your_api_key_here\<newline>VITE_API_TOKEN=sk-token\<newline>''"

definition both_env :: string where
  "both_env = ''VITE_GEMINI_API_KEY=AIzaSyEXAMPLE\<newline>VITE_API_TOKEN = sk-token\<newline>VITE_MODEL_NAME=gemini-2.5-flash-image-preview''"

definition demo_key_env :: string where
  "demo_key_env = ''VITE_GEMINI_API_KEY=demo-key\<newline>VITE_API_TOKEN=sk-token''"

section \<open>Strings\<close>

lemma startsWith_prefix: "startsWith s sub \<longleftrightarrow> prefix sub s"
  by (induction s sub rule: startsWith.induct) auto

lemma includesStr_sublist: "includesStr s sub \<longleftrightarrow> sublist sub s"
  by (induction s) (auto simp: startsWith_prefix sublist_Cons_right)


lemma split_on_not_Nil: "split_on sep s \<noteq> []"
  by (induction s) (auto split: list.splits)

lemma join_split_on: "join [sep] (split_on sep s) = s"
proof (induction s)
  case Nil
  then show ?case by simp
next
  case (Cons c s)
  obtain w ws where ws: "split_on sep s = w # ws"
    using split_on_not_Nil [of sep s] by (cases "split_on sep s") auto
  with Cons show ?case by (cases ws) auto
qed

section \<open>Guarded reads and paths\<close>

text \<open>An \<open>&&\<close> chain of property reads never throws below its root, and its value is
  truthy exactly when the value at the path is.\<close>

lemma field_falsy: "\<not> truthy v \<Longrightarrow> field v n = JUndefined"
  by (cases v) (simp_all add: field_def)

lemma first_of_falsy: "\<not> truthy v \<Longrightarrow> first_of v = JUndefined"
  by (cases v) (simp_all add: first_of_def)

lemma getProp_field: "\<not> nullish v \<Longrightarrow> getProp v n = Inr (field v n)"
  by (cases v) (simp_all add: field_def)

lemma getProp_nullish: "nullish v \<Longrightarrow> getProp v n = Inl TypeError"
  by (cases v) simp_all

lemma elem0_first_of: "\<not> nullish v \<Longrightarrow> elem0 v = Inr (first_of v)"
  by (cases v) (simp_all add: first_of_def)

lemma truthy_not_nullish: "truthy v \<Longrightarrow> \<not> nullish v"
  by (cases v) simp_all

lemma guarded_getProp: "guarded (Inr v) (\<lambda>c. getProp c n) = Inr (if truthy v then field v n else v)"
  by (simp add: guarded_def and_then_def getProp_field truthy_not_nullish)

lemma guarded_elem0: "guarded (Inr v) elem0 = Inr (if truthy v then first_of v else v)"
  by (simp add: guarded_def and_then_def elem0_first_of truthy_not_nullish)

lemma guarded_Inl: "guarded (Inl e) f = Inl e"
  by (simp add: guarded_def and_then_def)

lemma gemini_parts_nullish: "nullish response \<Longrightarrow> gemini_parts response = Inl TypeError"
  by (simp add: gemini_parts_def getProp_nullish guarded_Inl)

lemma gemini_parts_value:
  assumes "\<not> nullish response"
  shows "\<exists>x. gemini_parts response = Inr x \<and> truthy x = truthy (parts_of response)
             \<and> (truthy x \<longrightarrow> x = parts_of response)"
  using assms
  by (auto simp: gemini_parts_def parts_of_def getProp_field guarded_getProp guarded_elem0
      field_falsy first_of_falsy)

lemma first_choice_nullish: "nullish response \<Longrightarrow> first_choice response = Inl TypeError"
  by (simp add: first_choice_def getProp_nullish guarded_Inl)

lemma first_choice_value:
  assumes "\<not> nullish response"
  shows "\<exists>x. first_choice response = Inr x \<and> truthy x = truthy (choice_of response)
             \<and> (truthy x \<longrightarrow> x = choice_of response)"
  using assms
  by (auto simp: first_choice_def choice_of_def getProp_field guarded_elem0 first_of_falsy)

lemma inline_data_value:
  "\<not> nullish p \<Longrightarrow> \<exists>d. guarded (getProp p ''inlineData'') (\<lambda>i. getProp i ''data'') = Inr d
      \<and> truthy d = truthy (inline_data_of p) \<and> (truthy d \<longrightarrow> d = inline_data_of p)"
  by (auto simp: inline_data_of_def getProp_field guarded_getProp field_falsy)

lemma push_inline_data_objects:
  "list_all (\<lambda>p. \<not> nullish p) ps \<Longrightarrow>
     push_inline_data ps images = Inr (images @ filter truthy (map inline_data_of ps))"
proof (induction ps arbitrary: images)
  case Nil
  then show ?case by simp
next
  case (Cons p ps)
  then have np: "\<not> nullish p" and rest: "list_all (\<lambda>p. \<not> nullish p) ps" by simp_all
  from inline_data_value [OF np] obtain d where
    d: "guarded (getProp p ''inlineData'') (\<lambda>i. getProp i ''data'') = Inr d"
       "truthy d = truthy (inline_data_of p)" "truthy d \<longrightarrow> d = inline_data_of p"
    by blast
  show ?case
    using d Cons.IH [OF rest] by auto
qed

lemma message_content_value:
  "truthy c \<Longrightarrow> \<exists>d. guarded (getProp c ''message'') (\<lambda>m. getProp m ''content'') = Inr d
      \<and> truthy d = truthy (field (field c ''message'') ''content'')
      \<and> (truthy d \<longrightarrow> d = field (field c ''message'') ''content'')"
  by (auto simp: getProp_field truthy_not_nullish guarded_getProp field_falsy)

lemma extract_images_eq:
  "extract_images response =
     (if nullish response then Inl TypeError
      else if truthy (parts_of response)
        then and_then (iterate (parts_of response)) (\<lambda>xs. push_inline_data xs [])
      else if truthy (choice_of response)
        then Inr (let c = field (field (choice_of response) ''message'') ''content''
                  in if truthy c then [c] else [])
      else Inl (Error ''Invalid response format from API''))"
proof (cases "nullish response")
  case True
  then show ?thesis
    by (simp add: extract_images_def gemini_parts_nullish and_then_def)
next
  case False
  from gemini_parts_value [OF False] obtain x where
    x: "gemini_parts response = Inr x" "truthy x = truthy (parts_of response)"
       "truthy x \<longrightarrow> x = parts_of response" by blast
  from first_choice_value [OF False] obtain c where
    c: "first_choice response = Inr c" "truthy c = truthy (choice_of response)"
       "truthy c \<longrightarrow> c = choice_of response" by blast
  show ?thesis
  proof (cases "truthy (parts_of response)")
    case True
    with x False show ?thesis by (simp add: extract_images_def and_then_def)
  next
    case np: False
    show ?thesis
    proof (cases "truthy (choice_of response)")
      case True
      with c have tc: "truthy c" and ceq: "c = choice_of response" by simp_all
      from message_content_value [OF tc] obtain d where
        d: "guarded (getProp c ''message'') (\<lambda>m. getProp m ''content'') = Inr d"
           "truthy d = truthy (field (field c ''message'') ''content'')"
           "truthy d \<longrightarrow> d = field (field c ''message'') ''content''" by blast
      have "extract_images response = Inr (if truthy d then [d] else [])"
        using False np x(1,2) c(1) tc d(1) by (simp add: extract_images_def and_then_def)
      moreover have "(if truthy d then [d] else []) =
          (let v = field (field (choice_of response) ''message'') ''content''
           in if truthy v then [v] else [])"
        using d(2,3) unfolding ceq Let_def by (cases "truthy d") simp_all
      ultimately show ?thesis
        using False np True by simp
    next
      case nc: False
      with c x np False show ?thesis by (simp add: extract_images_def and_then_def)
    qed
  qed
qed


section \<open>Runs of the operations\<close>

lemma sent_callAPI: "sent (callAPI cfg P F ep pl) = [api_request cfg ep pl]"
  by (simp add: callAPI_def Let_def split: fetch_result.splits option.splits sum.splits)

lemma sent_continue_with: "sent (continue_with r f) = sent r"
  by (simp add: continue_with_def)

lemma sent_catch_rethrow: "sent (catch_rethrow l m r) = sent r"
  by (simp add: catch_rethrow_def split: sum.splits)

lemma sent_generateImage:
  "sent (generateImage cfg P F g) = [api_request cfg (endpoint_of cfg) (generateImage_payload g)]"
  by (simp add: generateImage_def sent_catch_rethrow sent_continue_with sent_callAPI)

lemma sent_editImage:
  "sent (editImage cfg P F e) = [api_request cfg (endpoint_of cfg) (editImage_payload e)]"
  by (simp add: editImage_def sent_catch_rethrow sent_continue_with sent_callAPI)

lemma sent_segmentImage:
  "sent (segmentImage cfg P F q) = [api_request cfg (endpoint_of cfg) (segmentImage_payload q)]"
  by (simp add: segmentImage_def sent_catch_rethrow sent_continue_with sent_callAPI)

text \<open>Each operation is a \<open>catch_rethrow\<close> around a call that continues with the reading of
  the response.\<close>

lemma attempt_resolved:
  "outcome r = Inr v \<Longrightarrow>
     outcome (catch_rethrow l m (continue_with r f)) = (case f v of Inl e \<Rightarrow> Inl (Error m) | Inr x \<Rightarrow> Inr x)"
  by (simp add: catch_rethrow_def continue_with_def and_then_def split: sum.splits)

lemma attempt_resolved_console:
  "outcome r = Inr v \<Longrightarrow>
     console (catch_rethrow l m (continue_with r f)) =
       (case f v of Inl e \<Rightarrow> console r @ [ErrorCaught l e] | Inr x \<Rightarrow> console r)"
  by (simp add: catch_rethrow_def continue_with_def and_then_def split: sum.splits)

lemma attempt_rejected:
  "outcome r = Inl e \<Longrightarrow>
     outcome (catch_rethrow l m (continue_with r f)) = Inl (Error m)
     \<and> console (catch_rethrow l m (continue_with r f)) = console r @ [ErrorCaught l e]"
  by (simp add: catch_rethrow_def continue_with_def and_then_def)

lemma attempt_rejection:
  "outcome (catch_rethrow l m (continue_with r f)) = Inl e \<Longrightarrow>
     e = Error m \<and> (\<exists>orig. console (catch_rethrow l m (continue_with r f)) = console r @ [ErrorCaught l orig]
          \<and> outcome (continue_with r f) = Inl orig)"
  by (auto simp: catch_rethrow_def continue_with_def and_then_def split: sum.splits)

lemma callAPI_fetch_rejected:
  "F (api_request cfg ep pl) = Rejected e \<Longrightarrow>
     outcome (callAPI cfg P F ep pl) = Inl e \<and> console (callAPI cfg P F ep pl) = []"
  by (simp add: callAPI_def Let_def)

lemma callAPI_not_ok:
  "F (api_request cfg ep pl) = Responded resp \<Longrightarrow> \<not> ok resp \<Longrightarrow>
     \<exists>e. outcome (callAPI cfg P F ep pl) = Inl e"
  by (simp add: callAPI_def Let_def split: option.splits sum.splits)

lemma callAPI_console_when_resolved:
  "outcome (callAPI cfg P F ep pl) = Inr v \<Longrightarrow> console (callAPI cfg P F ep pl) = []"
proof (cases "F (api_request cfg ep pl)")
  case (Rejected e)
  then show ?thesis by (simp add: callAPI_def Let_def)
next
  case (Responded resp)
  assume v: "outcome (callAPI cfg P F ep pl) = Inr v"
  show ?thesis
  proof (cases "ok resp")
    case True
    with Responded show ?thesis
      by (simp add: callAPI_def Let_def split: option.splits)
  next
    case False
    with Responded v show ?thesis
      by (simp add: callAPI_def Let_def split: option.splits sum.splits if_splits)
  qed
qed

lemma callAPI_ok:
  "F (api_request cfg ep pl) = Responded resp \<Longrightarrow> ok resp \<Longrightarrow>
     outcome (callAPI cfg P F ep pl) =
       (case P (JStr (body_text resp)) of None \<Rightarrow> Inl SyntaxError | Some v \<Rightarrow> Inr v)"
  by (simp add: callAPI_def Let_def split: option.splits)


section \<open>The endpoint\<close>

text \<open>
  Claim C2. Each of \<open>generateImage\<close>, \<open>editImage\<close> and \<open>segmentImage\<close> sends one request, to
  the base URL followed by the endpoint; the endpoint is \<open>/v1/chat/completions\<close> if and only
  if the base URL contains \<open>openai.com\<close>, and \<open>/v1beta/models/{model}:generateContent\<close>
  otherwise.
\<close>

theorem endpoint_by_base_url:
  "map url (sent (generateImage cfg P F g)) = [baseUrl cfg @ endpoint_of cfg]
   \<and> map url (sent (editImage cfg P F e)) = [baseUrl cfg @ endpoint_of cfg]
   \<and> map url (sent (segmentImage cfg P F q)) = [baseUrl cfg @ endpoint_of cfg]
   \<and> (endpoint_of cfg = ''/v1/chat/completions'' \<longleftrightarrow> sublist ''openai.com'' (baseUrl cfg))
   \<and> endpoint_of cfg =
        (if sublist ''openai.com'' (baseUrl cfg) then ''/v1/chat/completions''
         else ''/v1beta/models/'' @ modelName cfg @ '':generateContent'')"
  by (simp add: sent_generateImage sent_editImage sent_segmentImage api_request_def endpoint_of_def
      includesStr_sublist)

section \<open>The authentication header\<close>

lemma trim_Nil: "trim [] = []"
  by (simp add: trim_def)

lemma has_token_iff: "has_token cfg \<longleftrightarrow> (\<exists>t. apiToken cfg = Some t \<and> trim t \<noteq> [])"
  by (auto simp: has_token_def trim_Nil split: option.splits)

lemma request_headers_google:
  "sublist ''googleapis.com'' (baseUrl cfg) \<Longrightarrow>
     request_headers cfg ''x-goog-api-key'' = Some (apiKey cfg) \<and> request_headers cfg ''Authorization'' = None"
  by (simp add: request_headers_def Let_def includesStr_sublist)

lemma request_headers_token:
  "\<not> sublist ''googleapis.com'' (baseUrl cfg) \<Longrightarrow> apiToken cfg = Some t \<Longrightarrow> trim t \<noteq> [] \<Longrightarrow>
     request_headers cfg ''Authorization'' = (if t = ''demo-key'' then None else Some t)"
  by (auto simp: request_headers_def Let_def includesStr_sublist has_token_def token_of_def trim_Nil)

lemma request_headers_key:
  "\<not> sublist ''googleapis.com'' (baseUrl cfg) \<Longrightarrow> \<not> has_token cfg \<Longrightarrow>
     request_headers cfg ''Authorization'' =
       (if apiKey cfg = [] \<or> apiKey cfg = ''demo-key'' then None else Some (apiKey cfg))"
  by (simp add: request_headers_def Let_def includesStr_sublist)

text \<open>
  Claim C3, amended. Every request carries the headers chosen from the base URL. When the base
  URL contains \<open>googleapis.com\<close>, \<open>x-goog-api-key\<close> is the configured API key and there is
  no \<open>Authorization\<close> header. Otherwise \<open>Authorization\<close> is the API token when the token is
  not blank (not empty after trimming white space), else the API key, and the header is left
  out when that value is empty or equals \<open>demo-key\<close>.
\<close>

theorem authentication_header_by_base_url:
  "map headers (sent (generateImage cfg P F g)) = [request_headers cfg]
   \<and> map headers (sent (editImage cfg P F e)) = [request_headers cfg]
   \<and> map headers (sent (segmentImage cfg P F q)) = [request_headers cfg]
   \<and> (sublist ''googleapis.com'' (baseUrl cfg) \<longrightarrow>
        request_headers cfg ''x-goog-api-key'' = Some (apiKey cfg)
        \<and> request_headers cfg ''Authorization'' = None)
   \<and> (\<not> sublist ''googleapis.com'' (baseUrl cfg) \<longrightarrow>
        (\<forall>t. apiToken cfg = Some t \<and> trim t \<noteq> [] \<longrightarrow>
           request_headers cfg ''Authorization'' = (if t = ''demo-key'' then None else Some t))
        \<and> ((apiToken cfg = None \<or> (\<exists>t. apiToken cfg = Some t \<and> trim t = [])) \<longrightarrow>
           request_headers cfg ''Authorization'' =
             (if apiKey cfg = [] \<or> apiKey cfg = ''demo-key'' then None else Some (apiKey cfg))))"
proof -
  have sent: "map headers (sent (generateImage cfg P F g)) = [request_headers cfg]"
    "map headers (sent (editImage cfg P F e)) = [request_headers cfg]"
    "map headers (sent (segmentImage cfg P F q)) = [request_headers cfg]"
    by (simp_all add: sent_generateImage sent_editImage sent_segmentImage api_request_def)
  have no_token: "\<not> has_token cfg"
    if "apiToken cfg = None \<or> (\<exists>t. apiToken cfg = Some t \<and> trim t = [])"
    using that by (auto simp: has_token_iff)
  show ?thesis
    using sent request_headers_google [of cfg] request_headers_token [of cfg]
      request_headers_key [of cfg] no_token
    by blast
qed

lemma trim_sk_token: "trim ''sk-token'' = ''sk-token''"
  by (simp add: trim_def is_space_def)

lemma trim_blank: "trim '' '' = []"
  by (simp add: trim_def is_space_def)

lemma sublist_google_gemini: "sublist ''googleapis.com'' (baseUrl gemini_config)"
  by (simp add: includesStr_sublist [symmetric] gemini_config_def)

lemma not_sublist_google_openai: "\<not> sublist ''googleapis.com'' (baseUrl openai_config)"
  by (simp add: includesStr_sublist [symmetric] openai_config_def)

lemma not_sublist_google_proxy: "\<not> sublist ''googleapis.com'' (baseUrl proxy_config)"
  by (simp add: includesStr_sublist [symmetric] proxy_config_def)

text \<open>The three cases on the sample configurations.\<close>

theorem authentication_header_witness:
  "sublist ''googleapis.com'' (baseUrl gemini_config)
   \<and> request_headers gemini_config ''x-goog-api-key'' = Some ''AIzaSyEXAMPLE''
   \<and> request_headers gemini_config ''Authorization'' = None
   \<and> \<not> sublist ''googleapis.com'' (baseUrl openai_config)
   \<and> apiToken openai_config = Some ''sk-token'' \<and> trim ''sk-token'' \<noteq> []
   \<and> request_headers openai_config ''Authorization'' = Some ''sk-token''
   \<and> \<not> sublist ''googleapis.com'' (baseUrl proxy_config)
   \<and> apiToken proxy_config = Some '' '' \<and> trim '' '' = []
   \<and> request_headers proxy_config ''Authorization'' = Some ''sk-key''"
  using authentication_header_by_base_url [of gemini_config P F g e q]
    authentication_header_by_base_url [of openai_config P F g e q]
    authentication_header_by_base_url [of proxy_config P F g e q]
    sublist_google_gemini not_sublist_google_openai not_sublist_google_proxy trim_sk_token trim_blank
  by (simp add: gemini_config_def openai_config_def proxy_config_def)

text \<open>
  Claim C3 as stated fails for a token that is not empty but blank: with the token \<open>" "\<close> and
  the key \<open>sk-key\<close>, the \<open>Authorization\<close> header is the key, not the token.
\<close>

theorem blank_token_counterexample:
  "apiToken proxy_config = Some '' '' \<and> '' '' \<noteq> [] \<and> \<not> sublist ''googleapis.com'' (baseUrl proxy_config)
   \<and> map headers (sent (generateImage proxy_config sample_parse offline sample_generation))
       = [request_headers proxy_config]
   \<and> request_headers proxy_config ''Authorization'' = Some ''sk-key''"
  using not_sublist_google_proxy
  by (simp add: sent_generateImage api_request_def request_headers_def has_token_def token_of_def
      proxy_config_def trim_def is_space_def)


section \<open>Reference images in the payload\<close>

lemma body_sent:
  "map body (sent (generateImage cfg P F g)) = [generateImage_payload g]"
  "map body (sent (editImage cfg P F e)) = [editImage_payload e]"
  by (simp_all add: sent_generateImage sent_editImage api_request_def)

lemma length_reference_parts:
  "length (reference_parts images) = (case images of None \<Rightarrow> 0 | Some imgs \<Rightarrow> length imgs)"
  by (simp add: reference_parts_def split: option.splits)

text \<open>
  Claim C6, amended. The payload of a generation request and of an edit request holds one
  reference-image part for each element of the request's \<open>referenceImages\<close>, in order, and no
  other reference-image part: their number is the length of that array, so at most 2 when
  the caller supplies at most 2. The service itself sets no bound.
\<close>

theorem reference_parts_follow_request:
  "map body (sent (generateImage cfg P F g)) = [generateImage_payload g]
   \<and> map parts (contents (generateImage_payload g))
        = [TextPart (prompt g) # reference_parts (referenceImages g)]
   \<and> length (reference_parts (referenceImages g))
        = (case referenceImages g of None \<Rightarrow> 0 | Some imgs \<Rightarrow> length imgs)
   \<and> map body (sent (editImage cfg P F e)) = [editImage_payload e]
   \<and> map parts (contents (editImage_payload e))
        = [[TextPart (buildEditPrompt e), InlineData ''image/png'' (originalImage e)]
            @ reference_parts (edit_referenceImages e) @ mask_parts (maskImage e)]
   \<and> length (reference_parts (edit_referenceImages e))
        = (case edit_referenceImages e of None \<Rightarrow> 0 | Some imgs \<Rightarrow> length imgs)
   \<and> reference_parts (Some imgs) = map (InlineData ''image/png'') imgs"
proof -
  have "reference_parts (Some imgs) = map (InlineData ''image/png'') imgs"
    by (simp add: reference_parts_def)
  moreover have "map parts (contents (generateImage_payload g))
        = [TextPart (prompt g) # reference_parts (referenceImages g)]"
    by (simp add: generateImage_payload_def)
  moreover have "map parts (contents (editImage_payload e))
        = [[TextPart (buildEditPrompt e), InlineData ''image/png'' (originalImage e)]
            @ reference_parts (edit_referenceImages e) @ mask_parts (maskImage e)]"
    by (simp add: editImage_payload_def)
  ultimately show ?thesis
    using body_sent(1) [of cfg P F g] body_sent(2) [of cfg P F e] length_reference_parts by simp
qed

text \<open>
  Claim C6 as stated fails for a request with three reference images: the payload that is sent
  holds three reference-image parts.
\<close>

theorem three_reference_images_counterexample:
  "referenceImages sample_generation = Some [''cmVmMQ=='', ''cmVmMg=='', ''cmVmMw==''] 
   \<and> map body (sent (generateImage gemini_config sample_parse offline sample_generation))
        = [generateImage_payload sample_generation]
   \<and> map parts (contents (generateImage_payload sample_generation))
        = [[TextPart ''a banana on a table'', InlineData ''image/png'' ''cmVmMQ=='',
            InlineData ''image/png'' ''cmVmMg=='', InlineData ''image/png'' ''cmVmMw=='']]"
  by (simp add: sent_generateImage api_request_def generateImage_payload_def reference_parts_def
      sample_generation_def)


section \<open>setConfig and getConfig\<close>

lemma valid_constructor: "valid_state (constructor env objs config)"
  by (simp add: constructor_def alloc_def valid_state_def)

lemma this_config_constructor:
  "this_config (constructor env objs config) =
     spread (defaultConfig env) (case config of None \<Rightarrow> no_fields | Some c \<Rightarrow> c)"
  by (simp add: constructor_def alloc_def this_config_def)

lemma valid_setConfig: "valid_state (setConfig config st)"
  by (simp add: setConfig_def alloc_def valid_state_def)

lemma this_config_setConfig: "this_config (setConfig config st) = spread (this_config st) config"
  by (simp add: setConfig_def alloc_def this_config_def)

lemma getConfig_copy:
  assumes "valid_state st"
  shows "fst (getConfig st) = length (store st)"
    and "store (snd (getConfig st)) ! fst (getConfig st) = this_config st"
    and "this_config (snd (getConfig st)) = this_config st"
    and "valid_state (snd (getConfig st))"
    and "fst (getConfig st) \<noteq> config_ref (snd (getConfig st))"
  using assms
  by (simp_all add: getConfig_def alloc_def this_config_def valid_state_def nth_append)

lemma assign_other:
  "r \<noteq> config_ref st \<Longrightarrow> this_config (assign r f st) = this_config st"
  by (simp add: assign_def this_config_def)

lemma assign_read:
  "r < length (store st) \<Longrightarrow> store (assign r f st) ! r = f (store st ! r)"
  by (simp add: assign_def)

text \<open>
  Claim C9. \<open>setConfig\<close> with a partial configuration sets each supplied field to the supplied
  value and leaves every other field as it was. \<open>getConfig\<close> returns a new object that holds
  the fields of the configuration and leaves the configuration as it was; whatever the caller
  then assigns to that object, the configuration of the service stays the same.
\<close>

theorem setConfig_frame_getConfig_copy:
  assumes "valid_state st"
  shows "baseUrl (this_config (setConfig config st))
           = (case p_baseUrl config of None \<Rightarrow> baseUrl (this_config st) | Some v \<Rightarrow> v)
    \<and> apiKey (this_config (setConfig config st))
           = (case p_apiKey config of None \<Rightarrow> apiKey (this_config st) | Some v \<Rightarrow> v)
    \<and> modelName (this_config (setConfig config st))
           = (case p_modelName config of None \<Rightarrow> modelName (this_config st) | Some v \<Rightarrow> v)
    \<and> apiToken (this_config (setConfig config st))
           = (case p_apiToken config of None \<Rightarrow> apiToken (this_config st) | Some v \<Rightarrow> v)
    \<and> valid_state (setConfig config st)
    \<and> store (snd (getConfig st)) ! fst (getConfig st) = this_config st
    \<and> this_config (snd (getConfig st)) = this_config st
    \<and> this_config (assign (fst (getConfig st)) f (snd (getConfig st))) = this_config st
    \<and> store (assign (fst (getConfig st)) f (snd (getConfig st))) ! fst (getConfig st) = f (this_config st)"
proof -
  have fields: "this_config (setConfig config st) = spread (this_config st) config"
    by (rule this_config_setConfig)
  have copy: "store (snd (getConfig st)) ! fst (getConfig st) = this_config st"
    "this_config (snd (getConfig st)) = this_config st"
    "fst (getConfig st) \<noteq> config_ref (snd (getConfig st))"
    using getConfig_copy [OF assms] by simp_all
  have allocated: "fst (getConfig st) < length (store (snd (getConfig st)))"
    by (simp add: getConfig_def alloc_def)
  have kept: "this_config (assign (fst (getConfig st)) f (snd (getConfig st))) = this_config st"
    using assign_other [OF copy(3)] copy(2) by simp
  have changed: "store (assign (fst (getConfig st)) f (snd (getConfig st))) ! fst (getConfig st)
      = f (this_config st)"
    using assign_read [OF allocated] copy(1) by simp
  show ?thesis
    using copy(1,2) kept changed valid_setConfig [of config st]
    by (simp add: fields spread_def)
qed

text \<open>A service built from an empty environment: \<open>setConfig\<close> of the API key alone, and
  an assignment to the base URL of the object returned by \<open>getConfig\<close>.\<close>

theorem setConfig_getConfig_witness:
  "valid_state sample_service
   \<and> this_config sample_service = defaultConfig Map.empty
   \<and> this_config (setConfig key_only sample_service)
       = (defaultConfig Map.empty) \<lparr> apiKey := ''sk-new'' \<rparr>
   \<and> fst (getConfig sample_service) = 1
   \<and> this_config (assign 1 (\<lambda>c. c \<lparr> baseUrl := ''http://localhost'' \<rparr>) (snd (getConfig sample_service)))
       = defaultConfig Map.empty
   \<and> baseUrl (store (assign 1 (\<lambda>c. c \<lparr> baseUrl := ''http://localhost'' \<rparr>) (snd (getConfig sample_service))) ! 1)
       = ''http://localhost''"
  using setConfig_frame_getConfig_copy [of sample_service key_only "\<lambda>c. c \<lparr> baseUrl := ''http://localhost'' \<rparr>"]
    valid_constructor [of Map.empty "[]" None]
  by (simp add: sample_service_def key_only_def no_fields_def constructor_def alloc_def this_config_def
      spread_def defaultConfig_def env_or_def getConfig_def valid_state_def assign_def)


section \<open>The configuration check\<close>

lemma dropWhile_fixed: "xs = [] \<or> \<not> P (hd xs) \<Longrightarrow> dropWhile P xs = xs"
  by (cases xs) auto

lemma dropWhile_head: "dropWhile P xs = [] \<or> \<not> P (hd (dropWhile P xs))"
  using hd_dropWhile [of P xs] by blast

lemma trim_trim: "trim (trim s) = trim s"
proof -
  define a where "a = dropWhile is_space s"
  define b where "b = dropWhile is_space (rev a)"
  have t: "trim s = rev b" by (simp add: trim_def a_def b_def)
  have a_head: "a = [] \<or> \<not> is_space (hd a)"
    unfolding a_def by (rule dropWhile_head)
  have b_head: "b = [] \<or> \<not> is_space (hd b)"
    unfolding b_def by (rule dropWhile_head)
  have front: "rev b = [] \<or> \<not> is_space (hd (rev b))"
  proof (cases "b = []")
    case True
    then show ?thesis by simp
  next
    case False
    have "rev a = takeWhile is_space (rev a) @ b"
      by (simp add: b_def)
    then have "a = rev b @ rev (takeWhile is_space (rev a))"
      by (metis rev_append rev_rev_ident)
    then have "hd a = hd (rev b)" and "a \<noteq> []"
      using False by (metis hd_append2 rev_is_Nil_conv, metis Nil_is_append_conv rev_is_Nil_conv)
    with a_head show ?thesis by simp
  qed
  have "dropWhile is_space (rev b) = rev b"
    using front by (rule dropWhile_fixed)
  moreover have "dropWhile is_space b = b"
    using b_head by (rule dropWhile_fixed)
  ultimately have "trim (rev b) = rev b"
    by (simp add: trim_def)
  with t show ?thesis by simp
qed

lemma parse_line_trimmed:
  "(\<forall>k v. envVars k = Some v \<longrightarrow> trim v = v) \<Longrightarrow> parse_line envVars line k = Some v \<Longrightarrow> trim v = v"
  by (auto simp: parse_line_def Let_def trim_trim split: if_splits list.splits)

lemma foldl_parse_line_trimmed:
  "(\<forall>k v. envVars k = Some v \<longrightarrow> trim v = v) \<Longrightarrow>
     foldl parse_line envVars ls k = Some v \<Longrightarrow> trim v = v"
proof (induction ls arbitrary: envVars)
  case Nil
  then show ?case by simp
next
  case (Cons l ls)
  have "\<forall>k v. parse_line envVars l k = Some v \<longrightarrow> trim v = v"
    using Cons.prems(1) parse_line_trimmed by blast
  from Cons.IH [OF this] Cons.prems(2) show ?case by simp
qed

lemma parse_env_trimmed: "parse_env c k = Some v \<Longrightarrow> trim v = v"
  unfolding parse_env_def by (rule foldl_parse_line_trimmed [of Map.empty]) simp_all

lemma hasApiToken_parse_env:
  "hasApiToken (parse_env c) \<longleftrightarrow> (\<exists>v. parse_env c ''VITE_API_TOKEN'' = Some v \<and> v \<noteq> [])"
  using parse_env_trimmed [of c "''VITE_API_TOKEN''"]
  by (auto simp: hasApiToken_def split: option.splits)

lemma hasApiKey_iff:
  "hasApiKey envVars \<longleftrightarrow>
     (\<exists>v. envVars ''VITE_GEMINI_API_KEY'' = Some v \<and> v \<noteq> [] \<and> v \<noteq> ''your_api_key_here''
          \<and> \<not> sublist ''demo'' v)"
  by (auto simp: hasApiKey_def includesStr_sublist split: option.splits)

lemma demo_key_iff:
  "demo_key envVars \<longleftrightarrow> (\<exists>v. envVars ''VITE_GEMINI_API_KEY'' = Some v \<and> sublist ''demo'' v)"
  by (auto simp: demo_key_def includesStr_sublist split: option.splits)

lemma check_var_key:
  "fst (check_var envVars (b, out) \<lparr> var_key = ''VITE_GEMINI_API_KEY'', var_required = False \<rparr>)
     = (b \<and> (hasApiKey envVars \<or> hasApiToken envVars))"
  by (auto simp: check_var_def Let_def hasApiKey_def split: option.splits)

lemma check_var_token:
  "fst (check_var envVars (b, out) \<lparr> var_key = ''VITE_API_TOKEN'', var_required = False \<rparr>)
     = (b \<and> (hasApiKey envVars \<or> envVars ''VITE_API_TOKEN'' \<noteq> None \<and> envVars ''VITE_API_TOKEN'' \<noteq> Some []))"
  by (auto simp: check_var_def Let_def split: option.splits)

lemma check_var_other:
  "k \<noteq> ''VITE_GEMINI_API_KEY'' \<Longrightarrow> k \<noteq> ''VITE_API_TOKEN'' \<Longrightarrow>
     fst (check_var envVars (b, out) \<lparr> var_key = k, var_required = False \<rparr>) = b"
  by (auto simp: check_var_def Let_def split: option.splits)

lemma check_vars_valid:
  "fst (foldl (check_var envVars) (True, []) requiredVars)
     = ((hasApiKey envVars \<or> hasApiToken envVars)
        \<and> (hasApiKey envVars \<or> envVars ''VITE_API_TOKEN'' \<noteq> None \<and> envVars ''VITE_API_TOKEN'' \<noteq> Some []))"
proof -
  define s1 where "s1 = check_var envVars (True, []) \<lparr> var_key = ''VITE_GEMINI_API_KEY'', var_required = False \<rparr>"
  define s2 where "s2 = check_var envVars s1 \<lparr> var_key = ''VITE_API_TOKEN'', var_required = False \<rparr>"
  define s3 where "s3 = check_var envVars s2 \<lparr> var_key = ''VITE_API_BASE_URL'', var_required = False \<rparr>"
  define s4 where "s4 = check_var envVars s3 \<lparr> var_key = ''VITE_MODEL_NAME'', var_required = False \<rparr>"
  have run: "foldl (check_var envVars) (True, []) requiredVars = s4"
    by (simp add: requiredVars_def s1_def s2_def s3_def s4_def)
  have 1: "fst s1 = (hasApiKey envVars \<or> hasApiToken envVars)"
    unfolding s1_def by (simp add: check_var_key)
  have 2: "fst s2 = (fst s1 \<and> (hasApiKey envVars \<or> envVars ''VITE_API_TOKEN'' \<noteq> None \<and> envVars ''VITE_API_TOKEN'' \<noteq> Some []))"
    unfolding s2_def using check_var_token [of envVars "fst s1" "snd s1"] by simp
  have 3: "fst s3 = fst s2"
    unfolding s3_def using check_var_other [of "''VITE_API_BASE_URL''" envVars "fst s2" "snd s2"] by simp
  have 4: "fst s4 = fst s3"
    unfolding s4_def using check_var_other [of "''VITE_MODEL_NAME''" envVars "fst s3" "snd s3"] by simp
  show ?thesis
    unfolding run using 1 2 3 4 by simp
qed

lemma hasApiToken_present:
  "hasApiToken envVars \<Longrightarrow> envVars ''VITE_API_TOKEN'' \<noteq> None \<and> envVars ''VITE_API_TOKEN'' \<noteq> Some []"
  by (auto simp: hasApiToken_def split: option.splits)

lemma check_auth_valid:
  "fst (check_auth envVars st) = (fst st \<and> (hasApiKey envVars \<or> hasApiToken envVars))"
  by (cases st) (simp add: check_auth_def)

lemma check_auth_priority:
  "hasApiKey envVars \<Longrightarrow> hasApiToken envVars \<Longrightarrow> TokenTakesPriority \<in> set (snd (check_auth envVars st))"
  by (cases st) (simp add: check_auth_def)

lemma check_demo_valid:
  "fst (check_demo envVars st) = (fst st \<and> \<not> demo_key envVars)"
  by (cases st) (simp add: check_demo_def)

lemma check_demo_printed:
  "m \<in> set (snd st) \<Longrightarrow> m \<in> set (snd (check_demo envVars st))"
  by (cases st) (simp add: check_demo_def)

lemma check_config_Some:
  "check_config (Some c) =
     (let st = check_demo (parse_env c) (check_auth (parse_env c)
                 (foldl (check_var (parse_env c)) (True, []) requiredVars))
      in if fst st then \<lparr> printed = snd st @ [ValidationPassed], exit_code = 0 \<rparr>
         else \<lparr> printed = snd st @ [ValidationFailed], exit_code = 1 \<rparr>)"
  by (simp add: check_config_def Let_def split: prod.splits)

lemma final_valid:
  "fst (check_demo envVars (check_auth envVars (foldl (check_var envVars) (True, []) requiredVars)))
     = ((hasApiKey envVars \<or> hasApiToken envVars) \<and> \<not> demo_key envVars)"
  using hasApiToken_present [of envVars]
  by (auto simp: check_demo_valid check_auth_valid check_vars_valid)

lemma demo_key_no_key: "demo_key envVars \<Longrightarrow> \<not> hasApiKey envVars"
  by (auto simp: demo_key_iff hasApiKey_iff)

lemma exit_code_Some:
  "exit_code (check_config (Some c)) =
     (if (hasApiKey (parse_env c) \<or> hasApiToken (parse_env c)) \<and> \<not> demo_key (parse_env c) then 0 else 1)"
  by (simp add: check_config_Some Let_def final_valid)

lemma printed_priority:
  "hasApiKey (parse_env c) \<Longrightarrow> hasApiToken (parse_env c) \<Longrightarrow>
     TokenTakesPriority \<in> set (printed (check_config (Some c)))"
  using check_demo_printed [OF check_auth_priority]
  by (simp add: check_config_Some Let_def)

text \<open>
  Claim C8, amended. The script exits with code 1 if and only if the file \<open>.env\<close> is missing,
  or neither a valid API key (present, not the placeholder \<open>your_api_key_here\<close>, not
  containing \<open>demo\<close>) nor a non-empty API token is configured, or the configured API key
  contains \<open>demo\<close>; otherwise it exits with code 0. When a valid key and a token are both
  configured it passes and reports that the token takes priority.
\<close>

theorem check_config_exit_code:
  "exit_code (check_config None) = 1
   \<and> (exit_code (check_config (Some c)) = 1 \<longleftrightarrow>
        (\<not> hasApiKey (parse_env c) \<and> \<not> hasApiToken (parse_env c)) \<or> demo_key (parse_env c))
   \<and> (exit_code (check_config (Some c)) = 0 \<longleftrightarrow>
        (hasApiKey (parse_env c) \<or> hasApiToken (parse_env c)) \<and> \<not> demo_key (parse_env c))
   \<and> (hasApiKey (parse_env c) \<longleftrightarrow>
        (\<exists>v. parse_env c ''VITE_GEMINI_API_KEY'' = Some v \<and> v \<noteq> [] \<and> v \<noteq> ''your_api_key_here''
             \<and> \<not> sublist ''demo'' v))
   \<and> (hasApiToken (parse_env c) \<longleftrightarrow> (\<exists>v. parse_env c ''VITE_API_TOKEN'' = Some v \<and> v \<noteq> []))
   \<and> (demo_key (parse_env c) \<longleftrightarrow> (\<exists>v. parse_env c ''VITE_GEMINI_API_KEY'' = Some v \<and> sublist ''demo'' v))
   \<and> (hasApiKey (parse_env c) \<and> hasApiToken (parse_env c) \<longrightarrow>
        exit_code (check_config (Some c)) = 0
        \<and> TokenTakesPriority \<in> set (printed (check_config (Some c))))"
proof -
  let ?env = "parse_env c"
  have missing: "exit_code (check_config None) = 1"
    by (simp add: check_config_def)
  have fail: "exit_code (check_config (Some c)) = 1 \<longleftrightarrow>
      (\<not> hasApiKey ?env \<and> \<not> hasApiToken ?env) \<or> demo_key ?env"
    by (auto simp: exit_code_Some)
  have pass: "exit_code (check_config (Some c)) = 0 \<longleftrightarrow>
      (hasApiKey ?env \<or> hasApiToken ?env) \<and> \<not> demo_key ?env"
    by (auto simp: exit_code_Some)
  have both: "exit_code (check_config (Some c)) = 0
      \<and> TokenTakesPriority \<in> set (printed (check_config (Some c)))"
    if k: "hasApiKey ?env" and t: "hasApiToken ?env"
    using k t pass demo_key_no_key [of ?env] printed_priority [of c] by blast
  have key: "hasApiKey ?env \<longleftrightarrow>
      (\<exists>v. ?env ''VITE_GEMINI_API_KEY'' = Some v \<and> v \<noteq> [] \<and> v \<noteq> ''your_api_key_here''
           \<and> \<not> sublist ''demo'' v)"
    by (rule hasApiKey_iff)
  have token: "hasApiToken ?env \<longleftrightarrow> (\<exists>v. ?env ''VITE_API_TOKEN'' = Some v \<and> v \<noteq> [])"
    by (rule hasApiToken_parse_env)
  have demo: "demo_key ?env \<longleftrightarrow> (\<exists>v. ?env ''VITE_GEMINI_API_KEY'' = Some v \<and> sublist ''demo'' v)"
    by (rule demo_key_iff)
  have priority: "hasApiKey ?env \<and> hasApiToken ?env \<longrightarrow>
      exit_code (check_config (Some c)) = 0
      \<and> TokenTakesPriority \<in> set (printed (check_config (Some c)))"
    using both by blast
  show ?thesis
    by (intro conjI missing fail pass key token demo priority)
qed


lemma parse_env_both:
  "parse_env both_env ''VITE_GEMINI_API_KEY'' = Some ''AIzaSyEXAMPLE''"
  "parse_env both_env ''VITE_API_TOKEN'' = Some ''sk-token''"
  by (simp_all add: parse_env_def both_env_def parse_line_def trim_def is_space_def)

lemma parse_env_token_only:
  "parse_env token_only_env ''VITE_GEMINI_API_KEY'' = Some ''your_api_key_here''"
  "parse_env token_only_env ''VITE_API_TOKEN'' = Some ''sk-token''"
  by (simp_all add: parse_env_def token_only_env_def parse_line_def trim_def is_space_def)

lemma parse_env_demo:
  "parse_env demo_key_env ''VITE_GEMINI_API_KEY'' = Some ''demo-key''"
  "parse_env demo_key_env ''VITE_API_TOKEN'' = Some ''sk-token''"
  by (simp_all add: parse_env_def demo_key_env_def parse_line_def trim_def is_space_def)

text \<open>A file with a key and a token passes and reports the priority of the token; a file
  with the placeholder key and a token passes; a missing file fails.\<close>

theorem check_config_witness:
  "hasApiKey (parse_env both_env) \<and> hasApiToken (parse_env both_env)
   \<and> exit_code (check_config (Some both_env)) = 0
   \<and> TokenTakesPriority \<in> set (printed (check_config (Some both_env)))
   \<and> \<not> hasApiKey (parse_env token_only_env) \<and> hasApiToken (parse_env token_only_env)
   \<and> exit_code (check_config (Some token_only_env)) = 0
   \<and> exit_code (check_config None) = 1"
proof -
  have no_demo: "\<not> sublist ''demo'' ''AIzaSyEXAMPLE''" "\<not> sublist ''demo'' ''your_api_key_here''"
    by (simp_all add: includesStr_sublist [symmetric])
  show ?thesis
    using check_config_exit_code [of both_env] check_config_exit_code [of token_only_env] no_demo
    by (simp add: parse_env_both parse_env_token_only)
qed

text \<open>
  Claim C8 as stated fails for a file that configures a token and the sample key
  \<open>demo-key\<close>: a non-empty token is configured, and the script exits with code 1.
\<close>

theorem demo_key_with_token_counterexample:
  "parse_env demo_key_env ''VITE_GEMINI_API_KEY'' = Some ''demo-key''
   \<and> parse_env demo_key_env ''VITE_API_TOKEN'' = Some ''sk-token''
   \<and> hasApiToken (parse_env demo_key_env)
   \<and> exit_code (check_config (Some demo_key_env)) = 1"
  by (simp add: parse_env_demo exit_code_Some hasApiToken_def hasApiKey_def demo_key_def
      trim_def is_space_def)

section \<open>Images extracted from a response\<close>

lemma parts_of_nullish: "nullish response \<Longrightarrow> parts_of response = JUndefined"
  by (cases response) (simp_all add: parts_of_def field_def first_of_def)

lemma choice_of_nullish: "nullish response \<Longrightarrow> choice_of response = JUndefined"
  by (cases response) (simp_all add: choice_of_def field_def first_of_def)

lemma extract_images_array:
  assumes "parts_of response = JArr ps" and "list_all (\<lambda>p. \<not> nullish p) ps"
  shows "extract_images response = Inr (filter truthy (map inline_data_of ps))"
proof -
  have "\<not> nullish response"
    using assms(1) parts_of_nullish by fastforce
  then show ?thesis
    using assms by (simp add: extract_images_eq and_then_def push_inline_data_objects)
qed


lemma extract_images_neither:
  assumes "\<not> truthy (parts_of response)" and "\<not> truthy (choice_of response)"
  shows "extract_images response =
           Inl (if nullish response then TypeError else Error ''Invalid response format from API'')"
  using assms by (simp add: extract_images_eq)

lemma images_array:
  assumes "outcome r = Inr response" and "parts_of response = JArr ps"
    and "list_all (\<lambda>p. \<not> nullish p) ps"
  shows "outcome (catch_rethrow l m (continue_with r extract_images))
           = Inr (filter truthy (map inline_data_of ps))"
  using attempt_resolved [OF assms(1), of l m extract_images] extract_images_array [OF assms(2,3)]
  by simp


lemma images_neither:
  assumes "outcome r = Inr response" and "\<not> truthy (parts_of response)"
    and "\<not> truthy (choice_of response)"
  shows "outcome (catch_rethrow l m (continue_with r extract_images)) = Inl (Error m)"
  using attempt_resolved [OF assms(1), of l m extract_images] extract_images_neither [OF assms(2,3)]
  by simp

lemma push_inline_data_nullish:
  "\<not> list_all (\<lambda>p. \<not> nullish p) ps \<Longrightarrow> push_inline_data ps images = Inl TypeError"
proof (induction ps arbitrary: images)
  case Nil
  then show ?case by simp
next
  case (Cons p ps)
  show ?case
  proof (cases "nullish p")
    case True
    then show ?thesis by (simp add: getProp_nullish guarded_Inl)
  next
    case False
    from inline_data_value [OF False] obtain d where
      d: "guarded (getProp p ''inlineData'') (\<lambda>i. getProp i ''data'') = Inr d" by blast
    from False Cons.prems have "\<not> list_all (\<lambda>p. \<not> nullish p) ps" by simp
    from Cons.IH [OF this] d show ?thesis by simp
  qed
qed

lemma inline_data_of_characters:
  "filter truthy (map inline_data_of (map (\<lambda>c. JStr [c]) s)) = []"
  by (induction s) (simp_all add: inline_data_of_def field_def)

lemma characters_not_nullish: "list_all (\<lambda>p. \<not> nullish p) (map (\<lambda>c. JStr [c]) s)"
  by (induction s) simp_all

lemma iterate_push:
  "and_then (iterate v) (\<lambda>xs. push_inline_data xs []) =
     (case v of
        JArr ps \<Rightarrow> if list_all (\<lambda>p. \<not> nullish p) ps
                   then Inr (filter truthy (map inline_data_of ps)) else Inl TypeError
      | JStr s \<Rightarrow> Inr []
      | _ \<Rightarrow> Inl TypeError)"
proof (cases v)
  case (JArr ps)
  then show ?thesis
    by (simp add: and_then_def push_inline_data_objects push_inline_data_nullish)
next
  case (JStr s)
  have "push_inline_data (map (\<lambda>c. JStr [c]) s) []
      = Inr ([] @ filter truthy (map inline_data_of (map (\<lambda>c. JStr [c]) s)))"
    by (rule push_inline_data_objects [OF characters_not_nullish])
  then have "push_inline_data (map (\<lambda>c. JStr [c]) s) [] = Inr []"
    by (simp only: inline_data_of_characters append_Nil)
  with JStr show ?thesis
    by (simp add: and_then_def)
qed (simp_all add: and_then_def)

lemma extract_images_total:
  "extract_images response =
     (if truthy (parts_of response) then
        (case parts_of response of
           JArr ps \<Rightarrow> if list_all (\<lambda>p. \<not> nullish p) ps
                      then Inr (filter truthy (map inline_data_of ps)) else Inl TypeError
         | JStr s \<Rightarrow> Inr []
         | _ \<Rightarrow> Inl TypeError)
      else if truthy (choice_of response)
        then Inr (if truthy (message_content_of response) then [message_content_of response] else [])
      else Inl (if nullish response then TypeError else Error ''Invalid response format from API''))"
proof (cases "nullish response")
  case True
  then show ?thesis
    by (simp add: extract_images_eq parts_of_nullish choice_of_nullish)
next
  case False
  then show ?thesis
    by (simp add: extract_images_eq iterate_push message_content_of_def Let_def)
qed

lemma images_total:
  assumes "outcome r = Inr response"
  shows "outcome (catch_rethrow l m (continue_with r extract_images)) =
     (if truthy (parts_of response) then
        (case parts_of response of
           JArr ps \<Rightarrow> if list_all (\<lambda>p. \<not> nullish p) ps
                      then Inr (filter truthy (map inline_data_of ps)) else Inl (Error m)
         | JStr s \<Rightarrow> Inr []
         | _ \<Rightarrow> Inl (Error m))
      else if truthy (choice_of response)
        then Inr (if truthy (message_content_of response) then [message_content_of response] else [])
      else Inl (Error m))"
  using attempt_resolved [OF assms, of l m extract_images]
  by (simp add: extract_images_total split: js_value.splits)


lemma callAPI_sample:
  "outcome (callAPI cfg sample_parse (server (ok_response b)) ep pl)
     = (case map_of sample_texts b of None \<Rightarrow> Inl SyntaxError | Some v \<Rightarrow> Inr v)"
proof -
  have "server (ok_response b) (api_request cfg ep pl) = Responded (ok_response b)"
    by (simp add: server_def)
  moreover have "ok (ok_response b)" and "body_text (ok_response b) = b"
    by (simp_all add: ok_response_def)
  ultimately show ?thesis
    using callAPI_ok [of "server (ok_response b)" cfg ep pl "ok_response b" sample_parse] by simp
qed

lemmas sample_text_defs =
  sample_texts_def image_body_def text_only_body_def chat_body_def empty_chat_body_def
  other_body_def empty_object_body_def masks_body_def masks_text_def quota_body_def quoted_def
  null_part_body_def image_null_body_def string_parts_body_def object_parts_body_def
  no_retry_body_def bad_details_body_def

lemma parsed_samples:
  "map_of sample_texts image_body = Some image_value"
  "map_of sample_texts text_only_body = Some text_only_value"
  "map_of sample_texts chat_body = Some chat_value"
  "map_of sample_texts empty_chat_body = Some empty_chat_value"
  "map_of sample_texts other_body = Some other_value"
  "map_of sample_texts empty_object_body = Some empty_object_value"
  "map_of sample_texts ''{}'' = Some (JObj [])"
  "map_of sample_texts masks_body = Some masks_response_value"
  "map_of sample_texts masks_text = Some masks_value"
  "map_of sample_texts quota_body = Some quota_value"
  "map_of sample_texts null_part_body = Some null_part_value"
  "map_of sample_texts image_null_body = Some image_null_value"
  "map_of sample_texts string_parts_body = Some string_parts_value"
  "map_of sample_texts object_parts_body = Some object_parts_value"
  "map_of sample_texts no_retry_body = Some no_retry_value"
  "map_of sample_texts bad_details_body = Some bad_details_value"
  "map_of sample_texts ''null'' = Some JNull"
  by (simp_all add: sample_text_defs)

lemmas path_defs = parts_of_def choice_of_def message_content_of_def inline_data_of_def
  first_part_of_def message_of_def field_def first_of_def



text \<open>
  Claim C10, amended. For a response returned by the call whose \<open>candidates[0].content.parts\<close>
  is an array of parts none of which is \<open>null\<close> and none of which has a non-empty
  \<open>inlineData.data\<close> (text parts, for example), \<open>generateImage\<close> and \<open>editImage\<close> resolve with
  the empty array. When an element of that array is \<open>null\<close>, they reject with their generic
  message.
\<close>

theorem no_inline_data_resolves_empty:
  "(outcome (callAPI cfg P F (endpoint_of cfg) (generateImage_payload g)) = Inr response
      \<and> parts_of response = JArr ps \<and> list_all (\<lambda>p. \<not> nullish p) ps
      \<and> list_all (\<lambda>p. \<not> truthy (inline_data_of p)) ps \<longrightarrow>
        outcome (generateImage cfg P F g) = Inr [])
   \<and> (outcome (callAPI cfg P F (endpoint_of cfg) (editImage_payload e)) = Inr response
      \<and> parts_of response = JArr ps \<and> list_all (\<lambda>p. \<not> nullish p) ps
      \<and> list_all (\<lambda>p. \<not> truthy (inline_data_of p)) ps \<longrightarrow>
        outcome (editImage cfg P F e) = Inr [])
   \<and> (outcome (callAPI cfg P F (endpoint_of cfg) (generateImage_payload g)) = Inr response
      \<and> parts_of response = JArr ps \<and> \<not> list_all (\<lambda>p. \<not> nullish p) ps \<longrightarrow>
        outcome (generateImage cfg P F g) = Inl (Error ''Failed to generate image. Please try again.''))
   \<and> (outcome (callAPI cfg P F (endpoint_of cfg) (editImage_payload e)) = Inr response
      \<and> parts_of response = JArr ps \<and> \<not> list_all (\<lambda>p. \<not> nullish p) ps \<longrightarrow>
        outcome (editImage cfg P F e) = Inl (Error ''Failed to edit image. Please try again.''))"
proof -
  have none: "filter truthy (map inline_data_of ps) = []"
    if "list_all (\<lambda>p. \<not> truthy (inline_data_of p)) ps"
    using that by (induction ps) simp_all
  have empty: "outcome r = Inr response \<and> parts_of response = JArr ps
      \<and> list_all (\<lambda>p. \<not> nullish p) ps \<and> list_all (\<lambda>p. \<not> truthy (inline_data_of p)) ps \<longrightarrow>
      outcome (catch_rethrow l m (continue_with r extract_images)) = Inr []" for r l m
    using images_array [of r response ps l m] none by auto
  have null: "outcome r = Inr response \<and> parts_of response = JArr ps
      \<and> \<not> list_all (\<lambda>p. \<not> nullish p) ps \<longrightarrow>
      outcome (catch_rethrow l m (continue_with r extract_images)) = Inl (Error m)" for r l m
    using images_total [of r response l m] by auto
  show ?thesis
    unfolding generateImage_def editImage_def
    by (intro conjI empty null)
qed

text \<open>A Gemini answer with a text part only, and one with an image part and \<open>null\<close>.\<close>

theorem no_inline_data_witness:
  "outcome (callAPI gemini_config sample_parse (server (ok_response text_only_body))
      (endpoint_of gemini_config) (generateImage_payload sample_generation)) = Inr text_only_value
   \<and> outcome (callAPI gemini_config sample_parse (server (ok_response text_only_body))
      (endpoint_of gemini_config) (editImage_payload sample_edit)) = Inr text_only_value
   \<and> parts_of text_only_value = JArr [JObj [(''text'', JStr ''I cannot draw that'')]]
   \<and> inline_data_of (JObj [(''text'', JStr ''I cannot draw that'')]) = JUndefined
   \<and> outcome (generateImage gemini_config sample_parse (server (ok_response text_only_body)) sample_generation)
        = Inr []
   \<and> outcome (editImage gemini_config sample_parse (server (ok_response text_only_body)) sample_edit)
        = Inr []
   \<and> outcome (callAPI gemini_config sample_parse (server (ok_response image_null_body))
      (endpoint_of gemini_config) (generateImage_payload sample_generation)) = Inr image_null_value
   \<and> parts_of image_null_value = JArr [JObj [(''inlineData'', JObj [(''data'', JStr ''aGVsbG8='')])], JNull]
   \<and> outcome (generateImage gemini_config sample_parse (server (ok_response image_null_body)) sample_generation)
        = Inl (Error ''Failed to generate image. Please try again.'')
   \<and> outcome (editImage gemini_config sample_parse (server (ok_response image_null_body)) sample_edit)
        = Inl (Error ''Failed to edit image. Please try again.'')"
  using no_inline_data_resolves_empty [of gemini_config sample_parse
      "server (ok_response text_only_body)" sample_generation text_only_value
      "[JObj [(''text'', JStr ''I cannot draw that'')]]" sample_edit]
    no_inline_data_resolves_empty [of gemini_config sample_parse
      "server (ok_response image_null_body)" sample_generation image_null_value
      "[JObj [(''inlineData'', JObj [(''data'', JStr ''aGVsbG8='')])], JNull]" sample_edit]
  by (simp add: callAPI_sample parsed_samples path_defs text_only_value_def image_null_value_def)

text \<open>
  Claim C10 as stated fails for the Gemini answer whose only part is \<open>null\<close>: it has the
  Gemini shape and no part with an image, and the operations reject.
\<close>

theorem null_part_counterexample:
  "outcome (callAPI gemini_config sample_parse (server (ok_response null_part_body))
      (endpoint_of gemini_config) (generateImage_payload sample_generation)) = Inr null_part_value
   \<and> parts_of null_part_value = JArr [JNull]
   \<and> outcome (generateImage gemini_config sample_parse (server (ok_response null_part_body)) sample_generation)
        = Inl (Error ''Failed to generate image. Please try again.'')
   \<and> outcome (editImage gemini_config sample_parse (server (ok_response null_part_body)) sample_edit)
        = Inl (Error ''Failed to edit image. Please try again.'')"
proof -
  have call: "outcome (callAPI gemini_config sample_parse (server (ok_response null_part_body)) ep pl)
      = Inr null_part_value" for ep pl
    by (simp add: callAPI_sample parsed_samples)
  have parts: "parts_of null_part_value = JArr [JNull]"
    by (simp add: path_defs null_part_value_def)
  have rejected: "outcome (catch_rethrow l m (continue_with
      (callAPI gemini_config sample_parse (server (ok_response null_part_body)) ep pl) extract_images))
      = Inl (Error m)" for l m ep pl
    using images_total [OF call, of l m ep pl] parts by simp
  show ?thesis
    by (simp add: generateImage_def editImage_def call parts rejected)
qed

section \<open>Rejections\<close>

lemma caught_any:
  assumes "outcome (catch_rethrow l m (continue_with r f)) = Inl x"
  shows "x = Error m \<and> (\<exists>orig. last (console (catch_rethrow l m (continue_with r f))) = ErrorCaught l orig)"
  using attempt_rejection [OF assms] by auto

lemma caught_fetch_rejected:
  assumes "F (api_request cfg ep pl) = Rejected e0"
  shows "outcome (catch_rethrow l m (continue_with (callAPI cfg P F ep pl) f)) = Inl (Error m)
     \<and> console (catch_rethrow l m (continue_with (callAPI cfg P F ep pl) f)) = [ErrorCaught l e0]"
  using attempt_rejected [of "callAPI cfg P F ep pl" e0 l m f]
    callAPI_fetch_rejected [of F cfg ep pl e0 P] assms
  by simp

lemma callAPI_not_ok_console:
  assumes "F (api_request cfg ep pl) = Responded resp" and "\<not> ok resp"
  shows "\<exists>orig rest. outcome (callAPI cfg P F ep pl) = Inl orig
     \<and> console (callAPI cfg P F ep pl)
          = ApiFailure (status resp) (statusText resp) (body_text resp) # rest"
  using assms by (simp add: callAPI_def Let_def split: option.splits sum.splits)

lemma caught_not_ok:
  assumes "F (api_request cfg ep pl) = Responded resp" and "\<not> ok resp"
  shows "outcome (catch_rethrow l m (continue_with (callAPI cfg P F ep pl) f)) = Inl (Error m)
     \<and> hd (console (catch_rethrow l m (continue_with (callAPI cfg P F ep pl) f)))
          = ApiFailure (status resp) (statusText resp) (body_text resp)
     \<and> (\<exists>orig. outcome (callAPI cfg P F ep pl) = Inl orig
          \<and> last (console (catch_rethrow l m (continue_with (callAPI cfg P F ep pl) f)))
               = ErrorCaught l orig)"
proof -
  from callAPI_not_ok_console [of F cfg ep pl resp P] assms obtain orig rest where
    r: "outcome (callAPI cfg P F ep pl) = Inl orig"
       "console (callAPI cfg P F ep pl) = ApiFailure (status resp) (statusText resp) (body_text resp) # rest"
    by blast
  from attempt_rejected [OF r(1), of l m f] r show ?thesis by simp
qed

lemma caught_after_call:
  assumes "outcome (callAPI cfg P F ep pl) = Inr response" and "f response = Inl orig"
  shows "outcome (catch_rethrow l m (continue_with (callAPI cfg P F ep pl) f)) = Inl (Error m)
     \<and> console (catch_rethrow l m (continue_with (callAPI cfg P F ep pl) f)) = [ErrorCaught l orig]"
  using attempt_resolved [OF assms(1), of l m f] attempt_resolved_console [OF assms(1), of l m f]
    callAPI_console_when_resolved [OF assms(1)] assms(2)
  by simp

lemma first_part_value:
  assumes "\<not> nullish response"
  shows "\<exists>p. guarded (gemini_parts response) elem0 = Inr p
      \<and> truthy p = truthy (first_part_of response) \<and> (truthy p \<longrightarrow> p = first_part_of response)"
proof -
  from gemini_parts_value [OF assms] obtain x where
    x: "gemini_parts response = Inr x" "truthy x = truthy (parts_of response)"
       "truthy x \<longrightarrow> x = parts_of response" by blast
  show ?thesis
  proof (cases "truthy x")
    case True
    with x show ?thesis by (simp add: guarded_elem0 first_part_of_def)
  next
    case False
    with x have "first_part_of response = JUndefined"
      by (simp add: first_part_of_def first_of_falsy)
    with x False show ?thesis by (simp add: guarded_elem0)
  qed
qed

lemma message_value:
  assumes "\<not> nullish response"
  shows "\<exists>m. guarded (first_choice response) (\<lambda>c. getProp c ''message'') = Inr m
      \<and> truthy m = truthy (message_of response) \<and> (truthy m \<longrightarrow> m = message_of response)"
proof -
  from first_choice_value [OF assms] obtain c where
    c: "first_choice response = Inr c" "truthy c = truthy (choice_of response)"
       "truthy c \<longrightarrow> c = choice_of response" by blast
  show ?thesis
  proof (cases "truthy c")
    case True
    with c show ?thesis by (simp add: guarded_getProp message_of_def)
  next
    case False
    with c have "message_of response = JUndefined"
      by (simp add: message_of_def field_falsy)
    with c False show ?thesis by (simp add: guarded_getProp)
  qed
qed

lemma response_text_eq:
  "response_text response =
     (if nullish response then Inl TypeError
      else if truthy (first_part_of response) \<or> truthy (message_of response)
        then Inr (text_of response)
      else Inl (Error ''Invalid response format from API''))"
proof (cases "nullish response")
  case True
  then show ?thesis
    by (simp add: response_text_def gemini_parts_nullish guarded_Inl and_then_def)
next
  case False
  from first_part_value [OF False] obtain p where
    p: "guarded (gemini_parts response) elem0 = Inr p" "truthy p = truthy (first_part_of response)"
       "truthy p \<longrightarrow> p = first_part_of response" by blast
  from message_value [OF False] obtain m where
    m: "guarded (first_choice response) (\<lambda>c. getProp c ''message'') = Inr m"
       "truthy m = truthy (message_of response)" "truthy m \<longrightarrow> m = message_of response" by blast
  show ?thesis
  proof (cases "truthy p")
    case True
    with p have "p = first_part_of response" by simp
    with True p(1) False show ?thesis
      by (simp add: response_text_def and_then_def text_of_def getProp_field truthy_not_nullish)
  next
    case np: False
    show ?thesis
    proof (cases "truthy m")
      case True
      with m have "m = message_of response" by simp
      with True np p(1,2) m(1) False show ?thesis
        by (simp add: response_text_def and_then_def text_of_def getProp_field truthy_not_nullish)
    next
      case nm: False
      with np p(1,2) m(1,2) False show ?thesis
        by (simp add: response_text_def and_then_def)
    qed
  qed
qed

lemma first_part_of_nullish: "nullish response \<Longrightarrow> first_part_of response = JUndefined"
  by (simp add: first_part_of_def parts_of_nullish first_of_def)

lemma message_of_nullish: "nullish response \<Longrightarrow> message_of response = JUndefined"
  by (simp add: message_of_def choice_of_nullish field_def)

lemma text_of_neither:
  "\<not> truthy (first_part_of response) \<Longrightarrow> \<not> truthy (message_of response) \<Longrightarrow>
     text_of response = JUndefined"
  by (simp add: text_of_def field_falsy)

lemma parse_segmentation_neither:
  assumes "\<not> truthy (first_part_of response)" and "\<not> truthy (message_of response)"
  shows "parse_segmentation P response =
           Inl (if nullish response then TypeError else Error ''Invalid response format from API'')"
  using assms by (simp add: parse_segmentation_def response_text_eq and_then_def)

lemma parse_segmentation_no_text:
  assumes "truthy (first_part_of response) \<or> truthy (message_of response)"
    and "\<not> truthy (text_of response)"
  shows "parse_segmentation P response = Inl (Error ''No text content in response'')"
proof -
  have "\<not> nullish response"
    using assms(1) first_part_of_nullish message_of_nullish by fastforce
  then show ?thesis
    using assms by (simp add: parse_segmentation_def response_text_eq and_then_def)
qed

lemma parse_segmentation_text:
  assumes "truthy (text_of response)"
  shows "parse_segmentation P response =
           (case P (text_of response) of None \<Rightarrow> Inl SyntaxError | Some v \<Rightarrow> Inr v)"
proof -
  have shape: "truthy (first_part_of response) \<or> truthy (message_of response)"
    using assms text_of_neither by fastforce
  then have "\<not> nullish response"
    using first_part_of_nullish message_of_nullish by fastforce
  then show ?thesis
    using assms shape by (simp add: parse_segmentation_def response_text_eq and_then_def)
qed

lemma extract_images_rejects:
  "\<not> truthy (parts_of response) \<Longrightarrow> \<not> truthy (choice_of response) \<Longrightarrow>
     extract_images response = Inl (if nullish response then TypeError else Error ''Invalid response format from API'')"
  by (rule extract_images_neither)

text \<open>
  Claim C4. Whenever one of the three operations rejects, it rejects with its generic message
  (\<open>Failed to generate image. Please try again.\<close>, \<open>Failed to edit image. Please try
  again.\<close>, \<open>Failed to segment image. Please try again.\<close>), and the last line it wrote to the
  console is the \<open>console.error\<close> of the error it caught. It rejects so when \<open>fetch\<close> rejects
  (a network failure: the error logged is the one \<open>fetch\<close> rejected with), when the status of
  the response is not ok (the error logged is the one the call threw), and when the response
  has neither the Gemini nor the chat shape (the error logged is the one thrown for the shape).
\<close>

theorem errors_rejected_with_generic_message:
  "(outcome (generateImage cfg P F g) = Inl x \<longrightarrow>
      x = Error ''Failed to generate image. Please try again.''
      \<and> (\<exists>orig. last (console (generateImage cfg P F g)) = ErrorCaught ''Error generating image:'' orig))
   \<and> (F (api_request cfg (endpoint_of cfg) (generateImage_payload g)) = Rejected e0 \<longrightarrow>
      outcome (generateImage cfg P F g) = Inl (Error ''Failed to generate image. Please try again.'')
      \<and> console (generateImage cfg P F g) = [ErrorCaught ''Error generating image:'' e0])
   \<and> (F (api_request cfg (endpoint_of cfg) (generateImage_payload g)) = Responded resp \<and> \<not> ok resp \<longrightarrow>
      outcome (generateImage cfg P F g) = Inl (Error ''Failed to generate image. Please try again.'')
      \<and> hd (console (generateImage cfg P F g)) = ApiFailure (status resp) (statusText resp) (body_text resp)
      \<and> (\<exists>orig. outcome (callAPI cfg P F (endpoint_of cfg) (generateImage_payload g)) = Inl orig
           \<and> last (console (generateImage cfg P F g)) = ErrorCaught ''Error generating image:'' orig))
   \<and> (outcome (callAPI cfg P F (endpoint_of cfg) (generateImage_payload g)) = Inr response
      \<and> \<not> truthy (parts_of response) \<and> \<not> truthy (choice_of response) \<longrightarrow>
      outcome (generateImage cfg P F g) = Inl (Error ''Failed to generate image. Please try again.'')
      \<and> console (generateImage cfg P F g)
           = [ErrorCaught ''Error generating image:''
                (if nullish response then TypeError else Error ''Invalid response format from API'')])
   \<and> (outcome (editImage cfg P F e) = Inl x \<longrightarrow>
      x = Error ''Failed to edit image. Please try again.''
      \<and> (\<exists>orig. last (console (editImage cfg P F e)) = ErrorCaught ''Error editing image:'' orig))
   \<and> (F (api_request cfg (endpoint_of cfg) (editImage_payload e)) = Rejected e0 \<longrightarrow>
      outcome (editImage cfg P F e) = Inl (Error ''Failed to edit image. Please try again.'')
      \<and> console (editImage cfg P F e) = [ErrorCaught ''Error editing image:'' e0])
   \<and> (F (api_request cfg (endpoint_of cfg) (editImage_payload e)) = Responded resp \<and> \<not> ok resp \<longrightarrow>
      outcome (editImage cfg P F e) = Inl (Error ''Failed to edit image. Please try again.'')
      \<and> hd (console (editImage cfg P F e)) = ApiFailure (status resp) (statusText resp) (body_text resp)
      \<and> (\<exists>orig. outcome (callAPI cfg P F (endpoint_of cfg) (editImage_payload e)) = Inl orig
           \<and> last (console (editImage cfg P F e)) = ErrorCaught ''Error editing image:'' orig))
   \<and> (outcome (callAPI cfg P F (endpoint_of cfg) (editImage_payload e)) = Inr response
      \<and> \<not> truthy (parts_of response) \<and> \<not> truthy (choice_of response) \<longrightarrow>
      outcome (editImage cfg P F e) = Inl (Error ''Failed to edit image. Please try again.'')
      \<and> console (editImage cfg P F e)
           = [ErrorCaught ''Error editing image:''
                (if nullish response then TypeError else Error ''Invalid response format from API'')])
   \<and> (outcome (segmentImage cfg P F q) = Inl x \<longrightarrow>
      x = Error ''Failed to segment image. Please try again.''
      \<and> (\<exists>orig. last (console (segmentImage cfg P F q)) = ErrorCaught ''Error segmenting image:'' orig))
   \<and> (F (api_request cfg (endpoint_of cfg) (segmentImage_payload q)) = Rejected e0 \<longrightarrow>
      outcome (segmentImage cfg P F q) = Inl (Error ''Failed to segment image. Please try again.'')
      \<and> console (segmentImage cfg P F q) = [ErrorCaught ''Error segmenting image:'' e0])
   \<and> (F (api_request cfg (endpoint_of cfg) (segmentImage_payload q)) = Responded resp \<and> \<not> ok resp \<longrightarrow>
      outcome (segmentImage cfg P F q) = Inl (Error ''Failed to segment image. Please try again.'')
      \<and> hd (console (segmentImage cfg P F q)) = ApiFailure (status resp) (statusText resp) (body_text resp)
      \<and> (\<exists>orig. outcome (callAPI cfg P F (endpoint_of cfg) (segmentImage_payload q)) = Inl orig
           \<and> last (console (segmentImage cfg P F q)) = ErrorCaught ''Error segmenting image:'' orig))
   \<and> (outcome (callAPI cfg P F (endpoint_of cfg) (segmentImage_payload q)) = Inr response
      \<and> \<not> truthy (first_part_of response) \<and> \<not> truthy (message_of response) \<longrightarrow>
      outcome (segmentImage cfg P F q) = Inl (Error ''Failed to segment image. Please try again.'')
      \<and> console (segmentImage cfg P F q)
           = [ErrorCaught ''Error segmenting image:''
                (if nullish response then TypeError else Error ''Invalid response format from API'')])"
proof -
  have any: "outcome (catch_rethrow l m (continue_with r f)) = Inl x \<longrightarrow>
      x = Error m \<and> (\<exists>orig. last (console (catch_rethrow l m (continue_with r f))) = ErrorCaught l orig)"
    for l m and f :: "js_value \<Rightarrow> js_error + js_value" and r :: "js_value run"
    using caught_any by blast
  have any': "outcome (catch_rethrow l m (continue_with r f)) = Inl x \<longrightarrow>
      x = Error m \<and> (\<exists>orig. last (console (catch_rethrow l m (continue_with r f))) = ErrorCaught l orig)"
    for l m and f :: "js_value \<Rightarrow> js_error + js_value list" and r :: "js_value run"
    using caught_any by blast
  have net: "F (api_request cfg ep pl) = Rejected e0 \<longrightarrow>
      outcome (catch_rethrow l m (continue_with (callAPI cfg P F ep pl) f)) = Inl (Error m)
      \<and> console (catch_rethrow l m (continue_with (callAPI cfg P F ep pl) f)) = [ErrorCaught l e0]"
    for ep pl l m and f :: "js_value \<Rightarrow> js_error + 'r"
    using caught_fetch_rejected by blast
  have http: "F (api_request cfg ep pl) = Responded resp \<and> \<not> ok resp \<longrightarrow>
      outcome (catch_rethrow l m (continue_with (callAPI cfg P F ep pl) f)) = Inl (Error m)
      \<and> hd (console (catch_rethrow l m (continue_with (callAPI cfg P F ep pl) f)))
           = ApiFailure (status resp) (statusText resp) (body_text resp)
      \<and> (\<exists>orig. outcome (callAPI cfg P F ep pl) = Inl orig
           \<and> last (console (catch_rethrow l m (continue_with (callAPI cfg P F ep pl) f)))
                = ErrorCaught l orig)"
    for ep pl l m and f :: "js_value \<Rightarrow> js_error + 'r"
    using caught_not_ok by blast
  have images: "outcome (callAPI cfg P F ep pl) = Inr response
      \<and> \<not> truthy (parts_of response) \<and> \<not> truthy (choice_of response) \<longrightarrow>
      outcome (catch_rethrow l m (continue_with (callAPI cfg P F ep pl) extract_images)) = Inl (Error m)
      \<and> console (catch_rethrow l m (continue_with (callAPI cfg P F ep pl) extract_images))
           = [ErrorCaught l (if nullish response then TypeError else Error ''Invalid response format from API'')]"
    for ep pl l m
    using caught_after_call [of cfg P F ep pl response extract_images] extract_images_neither [of response]
    by blast
  have segments: "outcome (callAPI cfg P F ep pl) = Inr response
      \<and> \<not> truthy (first_part_of response) \<and> \<not> truthy (message_of response) \<longrightarrow>
      outcome (catch_rethrow l m (continue_with (callAPI cfg P F ep pl) (parse_segmentation P))) = Inl (Error m)
      \<and> console (catch_rethrow l m (continue_with (callAPI cfg P F ep pl) (parse_segmentation P)))
           = [ErrorCaught l (if nullish response then TypeError else Error ''Invalid response format from API'')]"
    for ep pl l m
    using caught_after_call [of cfg P F ep pl response "parse_segmentation P"]
      parse_segmentation_neither [of response P]
    by blast
  show ?thesis
    unfolding generateImage_def editImage_def segmentImage_def
    by (intro conjI any any' net http images segments)
qed

text \<open>A network failure, an answer with status 503, and an answer of neither shape.\<close>

theorem errors_rejected_witness:
  "offline (api_request gemini_config (endpoint_of gemini_config) (generateImage_payload sample_generation))
     = Rejected TypeError
   \<and> outcome (generateImage gemini_config sample_parse offline sample_generation)
        = Inl (Error ''Failed to generate image. Please try again.'')
   \<and> console (generateImage gemini_config sample_parse offline sample_generation)
        = [ErrorCaught ''Error generating image:'' TypeError]
   \<and> outcome (editImage gemini_config sample_parse offline sample_edit)
        = Inl (Error ''Failed to edit image. Please try again.'')
   \<and> outcome (segmentImage gemini_config sample_parse offline sample_segmentation)
        = Inl (Error ''Failed to segment image. Please try again.'')
   \<and> \<not> ok unavailable_response
   \<and> outcome (generateImage gemini_config sample_parse (server unavailable_response) sample_generation)
        = Inl (Error ''Failed to generate image. Please try again.'')
   \<and> outcome (editImage gemini_config sample_parse (server unavailable_response) sample_edit)
        = Inl (Error ''Failed to edit image. Please try again.'')
   \<and> outcome (segmentImage gemini_config sample_parse (server unavailable_response) sample_segmentation)
        = Inl (Error ''Failed to segment image. Please try again.'')
   \<and> outcome (callAPI gemini_config sample_parse (server (ok_response other_body))
        (endpoint_of gemini_config) (segmentImage_payload sample_segmentation)) = Inr other_value
   \<and> \<not> truthy (first_part_of other_value) \<and> \<not> truthy (message_of other_value)
   \<and> \<not> truthy (parts_of other_value) \<and> \<not> truthy (choice_of other_value)
   \<and> console (generateImage gemini_config sample_parse (server (ok_response other_body)) sample_generation)
        = [ErrorCaught ''Error generating image:'' (Error ''Invalid response format from API'')]
   \<and> console (editImage gemini_config sample_parse (server (ok_response other_body)) sample_edit)
        = [ErrorCaught ''Error editing image:'' (Error ''Invalid response format from API'')]
   \<and> console (segmentImage gemini_config sample_parse (server (ok_response other_body)) sample_segmentation)
        = [ErrorCaught ''Error segmenting image:'' (Error ''Invalid response format from API'')]"
proof -
  have off: "offline (api_request gemini_config ep pl) = Rejected TypeError" for ep pl
    by (simp add: offline_def)
  have srv: "server r (api_request gemini_config ep pl) = Responded r" for r ep pl
    by (simp add: server_def)
  have nok: "\<not> ok unavailable_response"
    by (simp add: unavailable_response_def)
  have call: "outcome (callAPI gemini_config sample_parse (server (ok_response other_body)) ep pl)
      = Inr other_value" for ep pl
    by (simp add: callAPI_sample parsed_samples)
  have paths: "\<not> truthy (first_part_of other_value)" "\<not> truthy (message_of other_value)"
    "\<not> truthy (parts_of other_value)" "\<not> truthy (choice_of other_value)"
    "\<not> nullish other_value"
    by (simp_all add: path_defs other_value_def)
  note network = errors_rejected_with_generic_message [of gemini_config sample_parse offline
      sample_generation "Error []" TypeError unavailable_response other_value sample_edit
      sample_segmentation]
  note unavailable = errors_rejected_with_generic_message [of gemini_config sample_parse
      "server unavailable_response" sample_generation "Error []" TypeError unavailable_response
      other_value sample_edit sample_segmentation]
  note shape = errors_rejected_with_generic_message [of gemini_config sample_parse
      "server (ok_response other_body)" sample_generation "Error []" TypeError unavailable_response
      other_value sample_edit sample_segmentation]
  have 1: "outcome (generateImage gemini_config sample_parse offline sample_generation)
        = Inl (Error ''Failed to generate image. Please try again.'')
      \<and> console (generateImage gemini_config sample_parse offline sample_generation)
        = [ErrorCaught ''Error generating image:'' TypeError]
      \<and> outcome (editImage gemini_config sample_parse offline sample_edit)
        = Inl (Error ''Failed to edit image. Please try again.'')
      \<and> outcome (segmentImage gemini_config sample_parse offline sample_segmentation)
        = Inl (Error ''Failed to segment image. Please try again.'')"
    using network off by blast
  have 2: "outcome (generateImage gemini_config sample_parse (server unavailable_response) sample_generation)
        = Inl (Error ''Failed to generate image. Please try again.'')
      \<and> outcome (editImage gemini_config sample_parse (server unavailable_response) sample_edit)
        = Inl (Error ''Failed to edit image. Please try again.'')
      \<and> outcome (segmentImage gemini_config sample_parse (server unavailable_response) sample_segmentation)
        = Inl (Error ''Failed to segment image. Please try again.'')"
    using unavailable srv [of unavailable_response] nok by blast
  have 3: "console (generateImage gemini_config sample_parse (server (ok_response other_body)) sample_generation)
        = [ErrorCaught ''Error generating image:'' (Error ''Invalid response format from API'')]
      \<and> console (editImage gemini_config sample_parse (server (ok_response other_body)) sample_edit)
        = [ErrorCaught ''Error editing image:'' (Error ''Invalid response format from API'')]
      \<and> console (segmentImage gemini_config sample_parse (server (ok_response other_body)) sample_segmentation)
        = [ErrorCaught ''Error segmenting image:'' (Error ''Invalid response format from API'')]"
    using shape call paths by simp
  show ?thesis
    using 1 2 3 off nok call paths(1-4) by simp
qed

section \<open>Status 429\<close>

lemma find_retry_info_first:
  assumes "list_all (\<lambda>x. is_retry_info x = Inr False) pre" and "is_retry_info d = Inr True"
  shows "find_retry_info (pre @ d # post) = Inr d"
  using assms by (induction pre) simp_all

lemma retry_info_details:
  assumes "field (field errorObj ''error'') ''details'' = JArr ds"
  shows "retry_info errorObj = find_retry_info ds"
proof -
  have e: "\<not> nullish (field errorObj ''error'')"
    using assms by (cases "field errorObj ''error''") (simp_all add: field_def)
  then have o: "\<not> nullish errorObj"
    by (cases errorObj) (simp_all add: field_def)
  have ne: "field errorObj ''error'' \<noteq> JUndefined" "field errorObj ''error'' \<noteq> JNull"
    using e by auto
  show ?thesis
    using assms ne by (simp add: retry_info_def and_then_def getProp_field [OF o] getProp_field [OF e])
qed

lemma is_retry_info_object: "is_retry_info d = Inr True \<Longrightarrow> \<not> nullish d"
  by (cases d) (simp_all add: is_retry_info_def and_then_def)

lemma retry_delay_of_details:
  assumes "field (field errorObj ''error'') ''details'' = JArr (pre @ d # post)"
    and "list_all (\<lambda>x. is_retry_info x = Inr False) pre" and "is_retry_info d = Inr True"
  shows "retry_delay_of errorObj
           = Inr (if truthy (field d ''retryDelay'') then Delay (field d ''retryDelay'') else Unknown)"
proof -
  have found: "retry_info errorObj = Inr d"
    using retry_info_details [OF assms(1)] find_retry_info_first [OF assms(2,3)] by simp
  have d: "\<not> nullish d"
    using assms(3) by (rule is_retry_info_object)
  then have "d \<noteq> JUndefined" "d \<noteq> JNull" by auto
  then show ?thesis
    using found by (simp add: retry_delay_of_def and_then_def getProp_field [OF d])
qed

lemma callAPI_quota:
  assumes "F (api_request cfg ep pl) = Responded resp" and "\<not> ok resp" and "status resp = 429"
    and "P (JStr (body_text resp)) = Some errorObj" and "retry_delay_of errorObj = Inr d"
  shows "outcome (callAPI cfg P F ep pl) = Inl (QuotaExceeded d)"
    and "console (callAPI cfg P F ep pl)
           = [ApiFailure 429 (statusText resp) (body_text resp), QuotaNotice d]"
  using assms by (simp_all add: callAPI_def Let_def)

lemma callAPI_quota_unparsed:
  assumes "F (api_request cfg ep pl) = Responded resp" and "\<not> ok resp" and "status resp = 429"
    and "P (JStr (body_text resp)) = None"
  shows "outcome (callAPI cfg P F ep pl) = Inl SyntaxError"
    and "console (callAPI cfg P F ep pl) = [ApiFailure 429 (statusText resp) (body_text resp)]"
  using assms by (simp_all add: callAPI_def Let_def)

lemma caught_quota:
  assumes "F (api_request cfg ep pl) = Responded resp" and "\<not> ok resp" and "status resp = 429"
    and "P (JStr (body_text resp)) = Some errorObj" and "retry_delay_of errorObj = Inr d"
  shows "outcome (catch_rethrow l m (continue_with (callAPI cfg P F ep pl) f)) = Inl (Error m)
     \<and> console (catch_rethrow l m (continue_with (callAPI cfg P F ep pl) f))
          = [ApiFailure 429 (statusText resp) (body_text resp), QuotaNotice d,
             ErrorCaught l (QuotaExceeded d)]"
  using attempt_rejected [of "callAPI cfg P F ep pl" "QuotaExceeded d" l m f]
    callAPI_quota [of F cfg ep pl resp P errorObj d] assms
  by simp

lemma caught_quota_unparsed:
  assumes "F (api_request cfg ep pl) = Responded resp" and "\<not> ok resp" and "status resp = 429"
    and "P (JStr (body_text resp)) = None"
  shows "outcome (catch_rethrow l m (continue_with (callAPI cfg P F ep pl) f)) = Inl (Error m)
     \<and> console (catch_rethrow l m (continue_with (callAPI cfg P F ep pl) f))
          = [ApiFailure 429 (statusText resp) (body_text resp), ErrorCaught l SyntaxError]"
  using attempt_rejected [of "callAPI cfg P F ep pl" SyntaxError l m f]
    callAPI_quota_unparsed [of F cfg ep pl resp P] assms
  by simp

lemma find_retry_info_none:
  "list_all (\<lambda>x. is_retry_info x = Inr False) ds \<Longrightarrow> find_retry_info ds = Inr JUndefined"
  by (induction ds) simp_all

lemma find_retry_info_throws:
  assumes "list_all (\<lambda>x. is_retry_info x = Inr False) pre" and "is_retry_info d = Inl err"
  shows "find_retry_info (pre @ d # post) = Inl err"
  using assms by (induction pre) simp_all

lemma details_of_nullish: "nullish errorObj \<Longrightarrow> details_of errorObj = JUndefined"
  by (cases errorObj) (simp_all add: details_of_def field_def)

lemma details_of_no_error: "nullish (field errorObj ''error'') \<Longrightarrow> details_of errorObj = JUndefined"
  by (cases "field errorObj ''error''") (simp_all add: details_of_def field_def)

lemma nullish_cases: "nullish v \<longleftrightarrow> v = JUndefined \<or> v = JNull"
  by (cases v) simp_all

lemma retry_info_eq:
  "retry_info errorObj =
     (if nullish errorObj then Inl TypeError
      else if nullish (details_of errorObj) then Inr JUndefined
      else (case details_of errorObj of JArr xs \<Rightarrow> find_retry_info xs | _ \<Rightarrow> Inl TypeError))"
proof (cases "nullish errorObj")
  case True
  then show ?thesis by (simp add: retry_info_def getProp_nullish and_then_def)
next
  case o: False
  show ?thesis
  proof (cases "nullish (field errorObj ''error'')")
    case True
    then show ?thesis
      using o by (simp add: retry_info_def getProp_field and_then_def details_of_no_error nullish_cases)
  next
    case e: False
    then have ne: "field errorObj ''error'' \<noteq> JUndefined" "field errorObj ''error'' \<noteq> JNull"
      by auto
    have "retry_info errorObj =
        (case details_of errorObj of
           JUndefined \<Rightarrow> Inr JUndefined
         | JNull \<Rightarrow> Inr JUndefined
         | JArr xs \<Rightarrow> find_retry_info xs
         | _ \<Rightarrow> Inl TypeError)"
      using ne by (simp add: retry_info_def and_then_def getProp_field [OF o] getProp_field [OF e]
          details_of_def)
    then show ?thesis
      using o by (cases "details_of errorObj") simp_all
  qed
qed

lemma retry_delay_of_nullish:
  "nullish errorObj \<Longrightarrow> retry_delay_of errorObj = Inl TypeError"
  by (simp add: retry_delay_of_def retry_info_eq and_then_def)

lemma retry_delay_of_no_details:
  "\<not> nullish errorObj \<Longrightarrow> nullish (details_of errorObj) \<Longrightarrow> retry_delay_of errorObj = Inr Unknown"
  by (simp add: retry_delay_of_def retry_info_eq and_then_def)

lemma retry_delay_of_no_entry:
  assumes "details_of errorObj = JArr ds" and "list_all (\<lambda>x. is_retry_info x = Inr False) ds"
  shows "retry_delay_of errorObj = Inr Unknown"
proof -
  have "\<not> nullish errorObj"
    using assms(1) details_of_nullish by fastforce
  then show ?thesis
    using assms by (simp add: retry_delay_of_def retry_info_eq and_then_def find_retry_info_none)
qed

lemma retry_delay_of_entry:
  assumes "details_of errorObj = JArr (pre @ d # post)"
    and "list_all (\<lambda>x. is_retry_info x = Inr False) pre" and "is_retry_info d = Inr True"
  shows "retry_delay_of errorObj
           = Inr (if truthy (field d ''retryDelay'') then Delay (field d ''retryDelay'') else Unknown)"
  using retry_delay_of_details [of errorObj pre d post] assms by (simp add: details_of_def)

lemma retry_delay_of_throws:
  assumes "details_of errorObj = JArr (pre @ d # post)"
    and "list_all (\<lambda>x. is_retry_info x = Inr False) pre" and "is_retry_info d = Inl err"
  shows "retry_delay_of errorObj = Inl err"
proof -
  have "\<not> nullish errorObj"
    using assms(1) details_of_nullish by fastforce
  then show ?thesis
    using assms
    by (simp add: retry_delay_of_def retry_info_eq and_then_def find_retry_info_throws)
qed

lemma retry_delay_of_no_array:
  assumes "\<not> nullish (details_of errorObj)" and "\<not> is_array (details_of errorObj)"
  shows "retry_delay_of errorObj = Inl TypeError"
proof -
  have "\<not> nullish errorObj"
    using assms(1) details_of_nullish by fastforce
  then show ?thesis
    using assms
    by (cases "details_of errorObj") (simp_all add: retry_delay_of_def retry_info_eq and_then_def)
qed

lemma is_retry_info_eq:
  "is_retry_info entry =
     (if nullish entry then Inl TypeError
      else (case field entry ''@type'' of
              JUndefined \<Rightarrow> Inr False
            | JNull \<Rightarrow> Inr False
            | JStr s \<Rightarrow> Inr (sublist ''RetryInfo'' s)
            | JArr ys \<Rightarrow> Inr (JStr ''RetryInfo'' \<in> set ys)
            | _ \<Rightarrow> Inl TypeError))"
proof (cases "nullish entry")
  case True
  then show ?thesis by (simp add: is_retry_info_def getProp_nullish and_then_def)
next
  case False
  then show ?thesis
    by (simp add: is_retry_info_def getProp_field and_then_def includesStr_sublist
        split: js_value.splits)
qed

lemma callAPI_429:
  assumes "F (api_request cfg ep pl) = Responded resp" and "\<not> ok resp" and "status resp = 429"
  shows "callAPI cfg P F ep pl =
     (case P (JStr (body_text resp)) of
        None \<Rightarrow> \<lparr> sent = [api_request cfg ep pl],
                   console = [ApiFailure 429 (statusText resp) (body_text resp)],
                   outcome = Inl SyntaxError \<rparr>
      | Some errorObj \<Rightarrow>
          (case retry_delay_of errorObj of
             Inl err \<Rightarrow> \<lparr> sent = [api_request cfg ep pl],
                          console = [ApiFailure 429 (statusText resp) (body_text resp)],
                          outcome = Inl err \<rparr>
           | Inr d \<Rightarrow> \<lparr> sent = [api_request cfg ep pl],
                        console = [ApiFailure 429 (statusText resp) (body_text resp), QuotaNotice d],
                        outcome = Inl (QuotaExceeded d) \<rparr>))"
  using assms by (simp add: callAPI_def Let_def split: option.splits sum.splits)

lemma caught_429:
  assumes "F (api_request cfg ep pl) = Responded resp" and "\<not> ok resp" and "status resp = 429"
  shows "outcome (catch_rethrow l m (continue_with (callAPI cfg P F ep pl) f)) = Inl (Error m)
     \<and> console (catch_rethrow l m (continue_with (callAPI cfg P F ep pl) f)) =
         (case P (JStr (body_text resp)) of
            None \<Rightarrow> [ApiFailure 429 (statusText resp) (body_text resp), ErrorCaught l SyntaxError]
          | Some errorObj \<Rightarrow>
              (case retry_delay_of errorObj of
                 Inl err \<Rightarrow> [ApiFailure 429 (statusText resp) (body_text resp), ErrorCaught l err]
               | Inr d \<Rightarrow> [ApiFailure 429 (statusText resp) (body_text resp), QuotaNotice d,
                            ErrorCaught l (QuotaExceeded d)]))"
  unfolding callAPI_429 [of F cfg ep pl resp P, OF assms]
  by (simp add: catch_rethrow_def continue_with_def and_then_def split: option.splits sum.splits)

text \<open>
  Claim C5, amended. When the provider answers a call of \<open>generateImage\<close>, \<open>editImage\<close> or
  \<open>segmentImage\<close> with status 429, the operation rejects with its generic message, which
  carries no retry delay. When the error body is JSON and the retry delay can be read from it,
  the operation first writes a rate-limit notice with that delay to the console. The delay is
  the \<open>retryDelay\<close> of the first entry of the array \<open>error.details\<close> whose \<open>@type\<close> contains
  \<open>RetryInfo\<close>; it is the fallback text when that \<open>retryDelay\<close> is missing or empty, when no
  entry has such a \<open>@type\<close>, and when the body has no \<open>error.details\<close>. No notice is written
  when the body is not JSON, when it is \<open>null\<close>, when \<open>error.details\<close> is present and is not
  an array, and when an entry met before a \<open>RetryInfo\<close> entry is \<open>null\<close> or has a \<open>@type\<close>
  that is neither a string nor an array: then only the failure and the caught error are
  logged.
\<close>

theorem quota_notice_on_console:
  "(F (api_request cfg (endpoint_of cfg) (generateImage_payload g)) = Responded resp
      \<and> \<not> ok resp \<and> status resp = 429 \<longrightarrow>
      outcome (generateImage cfg P F g) = Inl (Error ''Failed to generate image. Please try again.'')
      \<and> console (generateImage cfg P F g) =
          (case P (JStr (body_text resp)) of
             None \<Rightarrow> [ApiFailure 429 (statusText resp) (body_text resp),
                        ErrorCaught ''Error generating image:'' SyntaxError]
           | Some errorObj \<Rightarrow>
               (case retry_delay_of errorObj of
                  Inl err \<Rightarrow> [ApiFailure 429 (statusText resp) (body_text resp),
                               ErrorCaught ''Error generating image:'' err]
                | Inr d \<Rightarrow> [ApiFailure 429 (statusText resp) (body_text resp), QuotaNotice d,
                             ErrorCaught ''Error generating image:'' (QuotaExceeded d)])))
   \<and> (F (api_request cfg (endpoint_of cfg) (editImage_payload e)) = Responded resp
      \<and> \<not> ok resp \<and> status resp = 429 \<longrightarrow>
      outcome (editImage cfg P F e) = Inl (Error ''Failed to edit image. Please try again.'')
      \<and> console (editImage cfg P F e) =
          (case P (JStr (body_text resp)) of
             None \<Rightarrow> [ApiFailure 429 (statusText resp) (body_text resp),
                        ErrorCaught ''Error editing image:'' SyntaxError]
           | Some errorObj \<Rightarrow>
               (case retry_delay_of errorObj of
                  Inl err \<Rightarrow> [ApiFailure 429 (statusText resp) (body_text resp),
                               ErrorCaught ''Error editing image:'' err]
                | Inr d \<Rightarrow> [ApiFailure 429 (statusText resp) (body_text resp), QuotaNotice d,
                             ErrorCaught ''Error editing image:'' (QuotaExceeded d)])))
   \<and> (F (api_request cfg (endpoint_of cfg) (segmentImage_payload q)) = Responded resp
      \<and> \<not> ok resp \<and> status resp = 429 \<longrightarrow>
      outcome (segmentImage cfg P F q) = Inl (Error ''Failed to segment image. Please try again.'')
      \<and> console (segmentImage cfg P F q) =
          (case P (JStr (body_text resp)) of
             None \<Rightarrow> [ApiFailure 429 (statusText resp) (body_text resp),
                        ErrorCaught ''Error segmenting image:'' SyntaxError]
           | Some errorObj \<Rightarrow>
               (case retry_delay_of errorObj of
                  Inl err \<Rightarrow> [ApiFailure 429 (statusText resp) (body_text resp),
                               ErrorCaught ''Error segmenting image:'' err]
                | Inr d \<Rightarrow> [ApiFailure 429 (statusText resp) (body_text resp), QuotaNotice d,
                             ErrorCaught ''Error segmenting image:'' (QuotaExceeded d)])))
   \<and> (nullish errorBody \<longrightarrow> retry_delay_of errorBody = Inl TypeError)
   \<and> (\<not> nullish errorBody \<and> nullish (details_of errorBody) \<longrightarrow> retry_delay_of errorBody = Inr Unknown)
   \<and> (details_of errorBody = JArr ds \<and> list_all (\<lambda>x. is_retry_info x = Inr False) ds \<longrightarrow>
        retry_delay_of errorBody = Inr Unknown)
   \<and> (details_of errorBody = JArr (pre @ detail # post)
        \<and> list_all (\<lambda>x. is_retry_info x = Inr False) pre \<and> is_retry_info detail = Inr True \<longrightarrow>
        retry_delay_of errorBody
          = Inr (if truthy (field detail ''retryDelay'') then Delay (field detail ''retryDelay'')
                 else Unknown))
   \<and> (details_of errorBody = JArr (pre @ detail # post)
        \<and> list_all (\<lambda>x. is_retry_info x = Inr False) pre \<and> is_retry_info detail = Inl thrown \<longrightarrow>
        retry_delay_of errorBody = Inl thrown)
   \<and> (\<not> nullish (details_of errorBody) \<and> \<not> is_array (details_of errorBody) \<longrightarrow>
        retry_delay_of errorBody = Inl TypeError)
   \<and> is_retry_info entry =
        (if nullish entry then Inl TypeError
         else (case field entry ''@type'' of
                 JUndefined \<Rightarrow> Inr False
               | JNull \<Rightarrow> Inr False
               | JStr s \<Rightarrow> Inr (sublist ''RetryInfo'' s)
               | JArr ys \<Rightarrow> Inr (JStr ''RetryInfo'' \<in> set ys)
               | _ \<Rightarrow> Inl TypeError))
   \<and> details_of errorBody = field (field errorBody ''error'') ''details''"
proof -
  have quota: "F (api_request cfg ep pl) = Responded resp \<and> \<not> ok resp \<and> status resp = 429 \<longrightarrow>
      outcome (catch_rethrow l m (continue_with (callAPI cfg P F ep pl) f)) = Inl (Error m)
      \<and> console (catch_rethrow l m (continue_with (callAPI cfg P F ep pl) f)) =
          (case P (JStr (body_text resp)) of
             None \<Rightarrow> [ApiFailure 429 (statusText resp) (body_text resp), ErrorCaught l SyntaxError]
           | Some errorObj \<Rightarrow>
               (case retry_delay_of errorObj of
                  Inl err \<Rightarrow> [ApiFailure 429 (statusText resp) (body_text resp), ErrorCaught l err]
                | Inr d \<Rightarrow> [ApiFailure 429 (statusText resp) (body_text resp), QuotaNotice d,
                             ErrorCaught l (QuotaExceeded d)]))"
    for ep pl l m and f :: "js_value \<Rightarrow> js_error + 'r"
    using caught_429 [of F cfg ep pl resp l m P f] by blast
  have a: "nullish errorBody \<longrightarrow> retry_delay_of errorBody = Inl TypeError"
    using retry_delay_of_nullish by blast
  have b: "\<not> nullish errorBody \<and> nullish (details_of errorBody) \<longrightarrow> retry_delay_of errorBody = Inr Unknown"
    using retry_delay_of_no_details by blast
  have c: "details_of errorBody = JArr ds \<and> list_all (\<lambda>x. is_retry_info x = Inr False) ds \<longrightarrow>
      retry_delay_of errorBody = Inr Unknown"
    using retry_delay_of_no_entry by blast
  have d: "details_of errorBody = JArr (pre @ detail # post)
      \<and> list_all (\<lambda>x. is_retry_info x = Inr False) pre \<and> is_retry_info detail = Inr True \<longrightarrow>
      retry_delay_of errorBody
        = Inr (if truthy (field detail ''retryDelay'') then Delay (field detail ''retryDelay'')
               else Unknown)"
    using retry_delay_of_entry [of errorBody pre detail post] by blast
  have e: "details_of errorBody = JArr (pre @ detail # post)
      \<and> list_all (\<lambda>x. is_retry_info x = Inr False) pre \<and> is_retry_info detail = Inl thrown \<longrightarrow>
      retry_delay_of errorBody = Inl thrown"
    using retry_delay_of_throws [of errorBody pre detail post] by blast
  have f: "\<not> nullish (details_of errorBody) \<and> \<not> is_array (details_of errorBody) \<longrightarrow>
      retry_delay_of errorBody = Inl TypeError"
    using retry_delay_of_no_array by blast
  show ?thesis
    unfolding generateImage_def editImage_def segmentImage_def
    by (intro conjI quota a b c d e f is_retry_info_eq details_of_def)
qed

lemma quota_sample:
  "sample_parse (JStr (body_text quota_response)) = Some quota_value"
  "\<not> ok quota_response" "status quota_response = 429"
  "statusText quota_response = ''Too Many Requests''"
  "body_text quota_response = quota_body"
  by (simp_all add: quota_response_def parsed_samples)

lemma quota_sample_details:
  "field (field quota_value ''error'') ''details''
     = JArr ([] @ JObj [(''@type'', JStr ''type.googleapis.com/google.rpc.RetryInfo''),
                        (''retryDelay'', JStr ''30s'')] # [])"
  "is_retry_info (JObj [(''@type'', JStr ''type.googleapis.com/google.rpc.RetryInfo''),
                        (''retryDelay'', JStr ''30s'')]) = Inr True"
  "field (JObj [(''@type'', JStr ''type.googleapis.com/google.rpc.RetryInfo''),
                (''retryDelay'', JStr ''30s'')]) ''retryDelay'' = JStr ''30s''"
  by (simp_all add: quota_value_def field_def is_retry_info_def and_then_def)

lemma quota_sample_delay: "retry_delay_of quota_value = Inr (Delay (JStr ''30s''))"
  using retry_delay_of_details [OF quota_sample_details(1) _ quota_sample_details(2)]
  by (simp add: quota_sample_details(3))

text \<open>Answers 429 of the sample provider: one whose \<open>RetryInfo\<close> gives 30 seconds, one
  without \<open>details\<close>, one whose body is \<open>null\<close>, one whose \<open>details\<close> is a string, and one
  whose body is not JSON; and the delay read from \<open>details\<close> without a \<open>RetryInfo\<close> entry
  and from \<open>details\<close> that hold \<open>null\<close>.\<close>

theorem quota_notice_witness:
  "server quota_response (api_request gemini_config (endpoint_of gemini_config)
      (generateImage_payload sample_generation)) = Responded quota_response
   \<and> \<not> ok quota_response \<and> status quota_response = 429
   \<and> sample_parse (JStr (body_text quota_response)) = Some quota_value
   \<and> retry_delay_of quota_value = Inr (Delay (JStr ''30s''))
   \<and> console (generateImage gemini_config sample_parse (server quota_response) sample_generation)
        = [ApiFailure 429 ''Too Many Requests'' quota_body, QuotaNotice (Delay (JStr ''30s'')),
           ErrorCaught ''Error generating image:'' (QuotaExceeded (Delay (JStr ''30s'')))]
   \<and> console (editImage gemini_config sample_parse (server quota_response) sample_edit)
        = [ApiFailure 429 ''Too Many Requests'' quota_body, QuotaNotice (Delay (JStr ''30s'')),
           ErrorCaught ''Error editing image:'' (QuotaExceeded (Delay (JStr ''30s'')))]
   \<and> console (segmentImage gemini_config sample_parse (server quota_response) sample_segmentation)
        = [ApiFailure 429 ''Too Many Requests'' quota_body, QuotaNotice (Delay (JStr ''30s'')),
           ErrorCaught ''Error segmenting image:'' (QuotaExceeded (Delay (JStr ''30s'')))]
   \<and> details_of no_retry_value = JUndefined
   \<and> console (generateImage gemini_config sample_parse (server (quota_answer no_retry_body)) sample_generation)
        = [ApiFailure 429 ''Too Many Requests'' no_retry_body, QuotaNotice Unknown,
           ErrorCaught ''Error generating image:'' (QuotaExceeded Unknown)]
   \<and> console (generateImage gemini_config sample_parse (server (quota_answer ''null'')) sample_generation)
        = [ApiFailure 429 ''Too Many Requests'' ''null'', ErrorCaught ''Error generating image:'' TypeError]
   \<and> details_of bad_details_value = JStr ''RetryInfo''
   \<and> console (generateImage gemini_config sample_parse (server (quota_answer bad_details_body)) sample_generation)
        = [ApiFailure 429 ''Too Many Requests'' bad_details_body,
           ErrorCaught ''Error generating image:'' TypeError]
   \<and> console (generateImage gemini_config sample_parse (server (quota_answer ''upstream down'')) sample_generation)
        = [ApiFailure 429 ''Too Many Requests'' ''upstream down'',
           ErrorCaught ''Error generating image:'' SyntaxError]
   \<and> outcome (generateImage gemini_config sample_parse (server (quota_answer no_retry_body)) sample_generation)
        = Inl (Error ''Failed to generate image. Please try again.'')
   \<and> retry_delay_of (JObj [(''error'', JObj [(''details'', JArr
          [JObj [(''@type'', JStr ''type.googleapis.com/google.rpc.Help'')]])])]) = Inr Unknown
   \<and> retry_delay_of (JObj [(''error'', JObj [(''details'', JArr [JNull])])]) = Inl TypeError"
proof -
  have entries: "is_retry_info (JObj [(''@type'', JStr ''type.googleapis.com/google.rpc.Help'')]) = Inr False"
    "is_retry_info JNull = Inl TypeError"
    "details_of (JObj [(''error'', JObj [(''details'', JArr
        [JObj [(''@type'', JStr ''type.googleapis.com/google.rpc.Help'')]])])])
       = JArr [JObj [(''@type'', JStr ''type.googleapis.com/google.rpc.Help'')]]"
    "details_of (JObj [(''error'', JObj [(''details'', JArr [JNull])])]) = JArr ([] @ JNull # [])"
    by (simp_all add: is_retry_info_def and_then_def details_of_def field_def)
  have others: "retry_delay_of (JObj [(''error'', JObj [(''details'', JArr
          [JObj [(''@type'', JStr ''type.googleapis.com/google.rpc.Help'')]])])]) = Inr Unknown"
    "retry_delay_of (JObj [(''error'', JObj [(''details'', JArr [JNull])])]) = Inl TypeError"
    using entries
      quota_notice_on_console [of "server quota_response" gemini_config sample_generation
        quota_response sample_parse sample_edit sample_segmentation
        "JObj [(''error'', JObj [(''details'', JArr
            [JObj [(''@type'', JStr ''type.googleapis.com/google.rpc.Help'')]])])]"
        "[JObj [(''@type'', JStr ''type.googleapis.com/google.rpc.Help'')]]" "[]" JNull "[]"
        TypeError JNull]
      quota_notice_on_console [of "server quota_response" gemini_config sample_generation
        quota_response sample_parse sample_edit sample_segmentation
        "JObj [(''error'', JObj [(''details'', JArr [JNull])])]" "[]" "[]" JNull "[]"
        TypeError JNull]
    by simp_all
  have answered: "server r (api_request gemini_config ep pl) = Responded r" for r ep pl
    by (simp add: server_def)
  have answer: "\<not> ok (quota_answer b)" "status (quota_answer b) = 429"
    "statusText (quota_answer b) = ''Too Many Requests''" "body_text (quota_answer b) = b" for b
    by (simp_all add: quota_answer_def)
  have details: "details_of no_retry_value = JUndefined" "\<not> nullish no_retry_value"
    "details_of bad_details_value = JStr ''RetryInfo''"
    "details_of quota_value
       = JArr ([] @ JObj [(''@type'', JStr ''type.googleapis.com/google.rpc.RetryInfo''),
                          (''retryDelay'', JStr ''30s'')] # [])"
    by (simp_all add: details_of_def field_def no_retry_value_def bad_details_value_def quota_value_def)
  have unparsed: "map_of sample_texts ''upstream down'' = None"
    by (simp add: sample_text_defs)
  note sample = quota_notice_on_console [of "server quota_response" gemini_config sample_generation
      quota_response sample_parse sample_edit sample_segmentation quota_value "[]" "[]"
      "JObj [(''@type'', JStr ''type.googleapis.com/google.rpc.RetryInfo''), (''retryDelay'', JStr ''30s'')]"
      "[]" TypeError JNull]
  have delays: "retry_delay_of quota_value = Inr (Delay (JStr ''30s''))"
    "retry_delay_of no_retry_value = Inr Unknown" "retry_delay_of JNull = Inl TypeError"
    "retry_delay_of bad_details_value = Inl TypeError"
    using sample details quota_sample_details(2,3)
      quota_notice_on_console [of "server quota_response" gemini_config sample_generation
        quota_response sample_parse sample_edit sample_segmentation no_retry_value "[]" "[]"
        JNull "[]" TypeError JNull]
      quota_notice_on_console [of "server quota_response" gemini_config sample_generation
        quota_response sample_parse sample_edit sample_segmentation JNull "[]" "[]"
        JNull "[]" TypeError JNull]
      quota_notice_on_console [of "server quota_response" gemini_config sample_generation
        quota_response sample_parse sample_edit sample_segmentation bad_details_value "[]" "[]"
        JNull "[]" TypeError JNull]
    by simp_all
  have consoles:
    "console (generateImage gemini_config sample_parse (server r) sample_generation) =
          (case sample_parse (JStr (body_text r)) of
             None \<Rightarrow> [ApiFailure 429 (statusText r) (body_text r),
                        ErrorCaught ''Error generating image:'' SyntaxError]
           | Some errorObj \<Rightarrow>
               (case retry_delay_of errorObj of
                  Inl err \<Rightarrow> [ApiFailure 429 (statusText r) (body_text r),
                               ErrorCaught ''Error generating image:'' err]
                | Inr d \<Rightarrow> [ApiFailure 429 (statusText r) (body_text r), QuotaNotice d,
                             ErrorCaught ''Error generating image:'' (QuotaExceeded d)]))"
    "console (editImage gemini_config sample_parse (server r) sample_edit) =
          (case sample_parse (JStr (body_text r)) of
             None \<Rightarrow> [ApiFailure 429 (statusText r) (body_text r),
                        ErrorCaught ''Error editing image:'' SyntaxError]
           | Some errorObj \<Rightarrow>
               (case retry_delay_of errorObj of
                  Inl err \<Rightarrow> [ApiFailure 429 (statusText r) (body_text r),
                               ErrorCaught ''Error editing image:'' err]
                | Inr d \<Rightarrow> [ApiFailure 429 (statusText r) (body_text r), QuotaNotice d,
                             ErrorCaught ''Error editing image:'' (QuotaExceeded d)]))"
    "console (segmentImage gemini_config sample_parse (server r) sample_segmentation) =
          (case sample_parse (JStr (body_text r)) of
             None \<Rightarrow> [ApiFailure 429 (statusText r) (body_text r),
                        ErrorCaught ''Error segmenting image:'' SyntaxError]
           | Some errorObj \<Rightarrow>
               (case retry_delay_of errorObj of
                  Inl err \<Rightarrow> [ApiFailure 429 (statusText r) (body_text r),
                               ErrorCaught ''Error segmenting image:'' err]
                | Inr d \<Rightarrow> [ApiFailure 429 (statusText r) (body_text r), QuotaNotice d,
                             ErrorCaught ''Error segmenting image:'' (QuotaExceeded d)]))"
    "outcome (generateImage gemini_config sample_parse (server r) sample_generation)
       = Inl (Error ''Failed to generate image. Please try again.'')"
    if "\<not> ok r" and "status r = 429" for r
    using quota_notice_on_console [of "server r" gemini_config sample_generation r sample_parse
        sample_edit sample_segmentation JNull "[]" "[]" JNull "[]" TypeError JNull]
      answered [of r] that
    by blast+
  show ?thesis
    by (simp add: answered answer quota_sample delays others details(1,3) unparsed parsed_samples
        consoles [OF quota_sample(2,3)] consoles [OF answer(1,2)])
qed

text \<open>
  Claim C5 as stated fails: on the answer 429 whose \<open>RetryInfo\<close> gives 30 seconds, the call
  throws the rate-limit error with that delay, and each operation rejects with its generic
  message, which has no delay in it.
\<close>

theorem quota_rejection_counterexample:
  "outcome (callAPI gemini_config sample_parse (server quota_response) (endpoint_of gemini_config)
      (generateImage_payload sample_generation)) = Inl (QuotaExceeded (Delay (JStr ''30s'')))
   \<and> outcome (generateImage gemini_config sample_parse (server quota_response) sample_generation)
        = Inl (Error ''Failed to generate image. Please try again.'')
   \<and> outcome (editImage gemini_config sample_parse (server quota_response) sample_edit)
        = Inl (Error ''Failed to edit image. Please try again.'')
   \<and> outcome (segmentImage gemini_config sample_parse (server quota_response) sample_segmentation)
        = Inl (Error ''Failed to segment image. Please try again.'')"
proof -
  have sent: "server quota_response (api_request gemini_config ep pl) = Responded quota_response"
    for ep pl
    by (simp add: server_def)
  have call: "outcome (callAPI gemini_config sample_parse (server quota_response) ep pl)
      = Inl (QuotaExceeded (Delay (JStr ''30s'')))" for ep pl
    using callAPI_quota(1) [of "server quota_response" gemini_config ep pl quota_response
        sample_parse quota_value "Delay (JStr ''30s'')"] sent quota_sample quota_sample_delay
    by simp
  have rejected: "outcome (catch_rethrow l m (continue_with
      (callAPI gemini_config sample_parse (server quota_response) ep pl) f)) = Inl (Error m)"
    for l m ep pl and f :: "js_value \<Rightarrow> js_error + 'r"
    using attempt_rejected [OF call, of l m ep pl f] by simp
  show ?thesis
    by (simp add: generateImage_def editImage_def segmentImage_def call rejected)
qed

section \<open>Segmentation\<close>

lemma segmentation_neither:
  assumes "outcome r = Inr response" and "\<not> truthy (first_part_of response)"
    and "\<not> truthy (message_of response)"
  shows "outcome (catch_rethrow l m (continue_with r (parse_segmentation P))) = Inl (Error m)"
  using attempt_resolved [OF assms(1), of l m "parse_segmentation P"]
    parse_segmentation_neither [OF assms(2,3), of P]
  by simp

lemma segmentation_no_text:
  assumes "outcome r = Inr response"
    and "truthy (first_part_of response) \<or> truthy (message_of response)"
    and "\<not> truthy (text_of response)"
  shows "outcome (catch_rethrow l m (continue_with r (parse_segmentation P))) = Inl (Error m)"
  using attempt_resolved [OF assms(1), of l m "parse_segmentation P"]
    parse_segmentation_no_text [OF assms(2,3), of P]
  by simp

lemma segmentation_text:
  assumes "outcome r = Inr response" and "truthy (text_of response)"
  shows "outcome (catch_rethrow l m (continue_with r (parse_segmentation P)))
           = (case P (text_of response) of None \<Rightarrow> Inl (Error m) | Some v \<Rightarrow> Inr v)"
  using attempt_resolved [OF assms(1), of l m "parse_segmentation P"]
    parse_segmentation_text [OF assms(2), of P]
  by (simp split: option.splits)

text \<open>
  Claim C7, amended. For a response returned by the call, \<open>segmentImage\<close> takes as text the
  \<open>text\<close> of the first Gemini part when there is one, else the \<open>content\<close> of the chat message.
  It rejects when the response has neither shape, when that text is missing or empty, and when
  \<open>JSON.parse\<close> throws on that text; otherwise it resolves with what \<open>JSON.parse\<close> returns
  for that text, as it is: the value is typed \<open>SegmentationResponse\<close> and is not checked
  against that interface.
\<close>

theorem segmentation_is_parsed_text:
  "outcome (callAPI cfg P F (endpoint_of cfg) (segmentImage_payload q)) = Inr response \<longrightarrow>
     (\<not> truthy (first_part_of response) \<and> \<not> truthy (message_of response) \<longrightarrow>
        outcome (segmentImage cfg P F q) = Inl (Error ''Failed to segment image. Please try again.''))
     \<and> ((truthy (first_part_of response) \<or> truthy (message_of response))
         \<and> \<not> truthy (text_of response) \<longrightarrow>
        outcome (segmentImage cfg P F q) = Inl (Error ''Failed to segment image. Please try again.''))
     \<and> (truthy (text_of response) \<longrightarrow>
        outcome (segmentImage cfg P F q)
          = (case P (text_of response) of
               None \<Rightarrow> Inl (Error ''Failed to segment image. Please try again.'')
             | Some v \<Rightarrow> Inr v))
     \<and> text_of response
          = (if truthy (first_part_of response) then field (first_part_of response) ''text''
             else field (message_of response) ''content'')"
  unfolding segmentImage_def
  using segmentation_neither [of _ response] segmentation_no_text [of _ response]
    segmentation_text [of _ response]
  by (simp add: text_of_def)

lemma masks_paths:
  "first_part_of masks_response_value = JUndefined"
  "text_of masks_response_value = JStr masks_text"
  by (simp_all add: text_of_def path_defs masks_response_value_def)

lemma empty_object_paths:
  "first_part_of empty_object_value = JObj [(''text'', JStr ''{}'')]"
  "text_of empty_object_value = JStr ''{}''"
  by (simp_all add: text_of_def path_defs empty_object_value_def)

lemma other_paths:
  "first_part_of other_value = JUndefined" "message_of other_value = JUndefined"
  by (simp_all add: path_defs other_value_def)

lemma text_only_paths:
  "text_of text_only_value = JStr ''I cannot draw that''"
  by (simp add: text_of_def path_defs text_only_value_def)

text \<open>A chat answer whose content is the text of a mask list, an answer of neither shape, and
  a Gemini answer whose text is not JSON.\<close>

theorem segmentation_witness:
  "outcome (callAPI openai_config sample_parse (server (ok_response masks_body))
      (endpoint_of openai_config) (segmentImage_payload sample_segmentation)) = Inr masks_response_value
   \<and> text_of masks_response_value = JStr masks_text
   \<and> outcome (segmentImage openai_config sample_parse (server (ok_response masks_body)) sample_segmentation)
        = Inr masks_value
   \<and> is_SegmentationResponse masks_value
   \<and> outcome (callAPI gemini_config sample_parse (server (ok_response other_body))
      (endpoint_of gemini_config) (segmentImage_payload sample_segmentation)) = Inr other_value
   \<and> \<not> truthy (first_part_of other_value) \<and> \<not> truthy (message_of other_value)
   \<and> outcome (segmentImage gemini_config sample_parse (server (ok_response other_body)) sample_segmentation)
        = Inl (Error ''Failed to segment image. Please try again.'')
   \<and> outcome (callAPI gemini_config sample_parse (server (ok_response text_only_body))
      (endpoint_of gemini_config) (segmentImage_payload sample_segmentation)) = Inr text_only_value
   \<and> text_of text_only_value = JStr ''I cannot draw that''
   \<and> sample_parse (JStr ''I cannot draw that'') = None
   \<and> outcome (segmentImage gemini_config sample_parse (server (ok_response text_only_body)) sample_segmentation)
        = Inl (Error ''Failed to segment image. Please try again.'')"
proof -
  have valid: "is_SegmentationResponse masks_value"
    by (simp add: is_SegmentationResponse_def is_mask_entry_def field_def masks_value_def)
  have unparsed: "sample_parse (JStr ''I cannot draw that'') = None"
    by (simp add: sample_text_defs)
  have parsed: "sample_parse (JStr masks_text) = Some masks_value"
    by (simp add: parsed_samples)
  have call: "outcome (callAPI cfg sample_parse (server (ok_response masks_body)) ep pl)
        = Inr masks_response_value"
      "outcome (callAPI cfg sample_parse (server (ok_response other_body)) ep pl) = Inr other_value"
      "outcome (callAPI cfg sample_parse (server (ok_response text_only_body)) ep pl)
        = Inr text_only_value" for cfg ep pl
    by (simp_all add: callAPI_sample parsed_samples)
  have present: "truthy (text_of masks_response_value)" "truthy (text_of text_only_value)"
    by (simp_all add: masks_paths text_only_paths masks_text_def)
  have "truthy (text_of masks_response_value) \<longrightarrow>
      outcome (segmentImage openai_config sample_parse (server (ok_response masks_body))
        sample_segmentation)
        = (case sample_parse (text_of masks_response_value) of
             None \<Rightarrow> Inl (Error ''Failed to segment image. Please try again.'')
           | Some v \<Rightarrow> Inr v)"
    using segmentation_is_parsed_text [of openai_config sample_parse "server (ok_response masks_body)"
        sample_segmentation masks_response_value] call(1)
    by blast
  then have 1: "outcome (segmentImage openai_config sample_parse (server (ok_response masks_body))
      sample_segmentation) = Inr masks_value"
    using present(1) parsed by (simp add: masks_paths)
  have "\<not> truthy (first_part_of other_value) \<and> \<not> truthy (message_of other_value) \<longrightarrow>
      outcome (segmentImage gemini_config sample_parse (server (ok_response other_body))
        sample_segmentation) = Inl (Error ''Failed to segment image. Please try again.'')"
    using segmentation_is_parsed_text [of gemini_config sample_parse "server (ok_response other_body)"
        sample_segmentation other_value] call(2)
    by blast
  then have 2: "outcome (segmentImage gemini_config sample_parse (server (ok_response other_body))
      sample_segmentation) = Inl (Error ''Failed to segment image. Please try again.'')"
    by (simp add: other_paths)
  have "truthy (text_of text_only_value) \<longrightarrow>
      outcome (segmentImage gemini_config sample_parse (server (ok_response text_only_body))
        sample_segmentation)
        = (case sample_parse (text_of text_only_value) of
             None \<Rightarrow> Inl (Error ''Failed to segment image. Please try again.'')
           | Some v \<Rightarrow> Inr v)"
    using segmentation_is_parsed_text [of gemini_config sample_parse "server (ok_response text_only_body)"
        sample_segmentation text_only_value] call(3)
    by blast
  then have 3: "outcome (segmentImage gemini_config sample_parse (server (ok_response text_only_body))
      sample_segmentation) = Inl (Error ''Failed to segment image. Please try again.'')"
    using present(2) unparsed by (simp add: text_only_paths)
  show ?thesis
    using 1 2 3 valid unparsed call by (simp add: masks_paths other_paths text_only_paths)
qed

text \<open>
  Claim C7 as stated fails for the Gemini answer whose text is \<open>{}\<close>: the operation resolves
  with the empty object, which has no \<open>masks\<close>.
\<close>

theorem empty_object_counterexample:
  "outcome (callAPI gemini_config sample_parse (server (ok_response empty_object_body))
      (endpoint_of gemini_config) (segmentImage_payload sample_segmentation)) = Inr empty_object_value
   \<and> text_of empty_object_value = JStr ''{}''
   \<and> sample_parse (JStr ''{}'') = Some (JObj [])
   \<and> outcome (segmentImage gemini_config sample_parse (server (ok_response empty_object_body))
        sample_segmentation) = Inr (JObj [])
   \<and> \<not> is_SegmentationResponse (JObj [])"
proof -
  have call: "outcome (callAPI gemini_config sample_parse (server (ok_response empty_object_body)) ep pl)
      = Inr empty_object_value" for ep pl
    by (simp add: callAPI_sample parsed_samples)
  have parsed: "sample_parse (JStr ''{}'') = Some (JObj [])"
    by (simp add: parsed_samples)
  have present: "truthy (text_of empty_object_value)"
    by (simp add: empty_object_paths)
  have "outcome (segmentImage gemini_config sample_parse (server (ok_response empty_object_body))
        sample_segmentation) = Inr (JObj [])"
    unfolding segmentImage_def
    using segmentation_text [OF call present, of _ _ _ _ sample_parse] parsed
    by (simp add: empty_object_paths)
  moreover have "\<not> is_SegmentationResponse (JObj [])"
    by (simp add: is_SegmentationResponse_def field_def)
  ultimately show ?thesis
    using call parsed by (simp add: empty_object_paths)
qed

end
